theory Spec2Isabelle
  imports Complex_Main "HOL-Library.Sublist" "HOL-Library.Multiset"
begin

section \<open>Python strings and the tables of the Python runtime\<close>

text \<open>
  A Python \<^verbatim>\<open>str\<close> is a sequence of Unicode code points: \<open>len\<close> counts code points and
  a slice \<^verbatim>\<open>s[:n]\<close> is \<open>take n\<close>. A literal of the source is written \<open>u ''...''\<close>.
\<close>

type_synonym ustring = "nat list"

definition u :: "string \<Rightarrow> ustring" where
  "u s = map of_char s"

text \<open>
  Three tables of the Unicode database are used by the source through \<^verbatim>\<open>re\<close> and
  \<^verbatim>\<open>str.lower\<close> and are not part of the repository: the alphanumeric code points
  (\<^verbatim>\<open>\w\<close> is an alphanumeric or the underscore), the decimal digits (\<^verbatim>\<open>\d\<close>) and the
  lower-casing of a string. They are a parameter of every function that reads them; the
  general theorems hold for every table.
\<close>

record unicode_db =
  db_isalnum :: "nat \<Rightarrow> bool"
  db_isdecimal :: "nat \<Rightarrow> bool"
  db_lower :: "ustring \<Rightarrow> ustring"

definition is_word :: "unicode_db \<Rightarrow> nat \<Rightarrow> bool" where
  "is_word R c = (db_isalnum R c \<or> c = 95)"

text \<open>The tables restricted to ASCII; they agree with CPython on every code point below 128
  and classify every other code point as a symbol that lower-casing leaves alone.\<close>

definition ascii_lower_char :: "nat \<Rightarrow> nat" where
  "ascii_lower_char c = (if 65 \<le> c \<and> c \<le> 90 then c + 32 else c)"

definition ascii_db :: unicode_db where
  "ascii_db = \<lparr> db_isalnum = (\<lambda>c. (48 \<le> c \<and> c \<le> 57) \<or> (65 \<le> c \<and> c \<le> 90) \<or> (97 \<le> c \<and> c \<le> 122)),
                 db_isdecimal = (\<lambda>c. 48 \<le> c \<and> c \<le> 57),
                 db_lower = map ascii_lower_char \<rparr>"

text \<open>\<^verbatim>\<open>\s\<close> on a \<^verbatim>\<open>str\<close> pattern and \<^verbatim>\<open>str.strip()\<close>: the Unicode white space of CPython.\<close>

definition is_space :: "nat \<Rightarrow> bool" where
  "is_space c = ((9 \<le> c \<and> c \<le> 13) \<or> (28 \<le> c \<and> c \<le> 32) \<or> c = 133 \<or> c = 160 \<or> c = 5760
                 \<or> (8192 \<le> c \<and> c \<le> 8202) \<or> c = 8232 \<or> c = 8233 \<or> c = 8239 \<or> c = 8287
                 \<or> c = 12288)"

definition non_space :: "nat \<Rightarrow> bool" where
  "non_space c = (\<not> is_space c)"

text \<open>\<^verbatim>\<open>.\<close> without DOTALL: every code point but the line feed.\<close>

definition dot :: "nat \<Rightarrow> bool" where
  "dot c = (c \<noteq> 10)"

text \<open>
  A lower-case ASCII letter \<open>c\<close> of a pattern compiled with IGNORECASE matches itself, its
  capital, and the code points that \<^verbatim>\<open>re\<close> folds onto it: U+0130 and U+0131 for i,
  U+017F for s, U+212A for k. Any other pattern character matches only itself.
\<close>

definition ci :: "nat \<Rightarrow> nat \<Rightarrow> bool" where
  "ci c t = (t = c \<or> (97 \<le> c \<and> c \<le> 122 \<and> t + 32 = c) \<or> (c = 105 \<and> (t = 304 \<or> t = 305))
             \<or> (c = 115 \<and> t = 383) \<or> (c = 107 \<and> t = 8490))"

text \<open>\<^verbatim>\<open>[a-z]\<close> under IGNORECASE.\<close>

definition az_ignorecase :: "nat \<Rightarrow> bool" where
  "az_ignorecase t = ((97 \<le> t \<and> t \<le> 122) \<or> (65 \<le> t \<and> t \<le> 90) \<or> t = 304 \<or> t = 305 \<or> t = 383 \<or> t = 8490)"

section \<open>Python floats\<close>

text \<open>
  A Python \<^verbatim>\<open>float\<close> is an IEEE 754 double: a real number with a significand of 53 bits.
  Every arithmetic operation on floats returns the exact result rounded to the nearest
  double, a tie to the even significand; \<open>to_double\<close> is that rounding (below 2 to the
  -1022 the doubles are spaced 2 to the -1074 apart; overflow to infinity is not
  modelled, no value here comes near it). A double is represented by its real value.
\<close>

definition pow2 :: "int \<Rightarrow> real" where
  "pow2 e = (if 0 \<le> e then 2 ^ nat e else 1 / 2 ^ nat (- e))"

definition round_half_even :: "real \<Rightarrow> int" where
  "round_half_even y =
     (if y - of_int \<lfloor>y\<rfloor> < 1/2 then \<lfloor>y\<rfloor>
      else if y - of_int \<lfloor>y\<rfloor> > 1/2 then \<lfloor>y\<rfloor> + 1
      else if even \<lfloor>y\<rfloor> then \<lfloor>y\<rfloor>
      else \<lfloor>y\<rfloor> + 1)"

definition float_exponent :: "real \<Rightarrow> int" where
  "float_exponent x = max \<lfloor>log 2 \<bar>x\<bar>\<rfloor> (- 1022)"

definition to_double :: "real \<Rightarrow> real" where
  "to_double x =
     (if x = 0 then 0
      else of_int (round_half_even (x / pow2 (float_exponent x - 52))) * pow2 (float_exponent x - 52))"

section \<open>The fragment of \<^verbatim>\<open>re\<close> that the source uses\<close>

text \<open>
  Every repetition of the source's patterns is over a single character class, so the
  expressions are: one code point of a class, a greedy repetition of a class, sequence,
  ordered alternative, the empty expression, \<^verbatim>\<open>\b\<close> and \<^verbatim>\<open>^\<close> under MULTILINE.
\<close>

datatype regex =
    Sym "nat \<Rightarrow> bool"
  | Star "nat \<Rightarrow> bool"
  | Seq regex regex
  | Alt regex regex
  | Eps
  | WordB
  | Bol

definition Lit :: "nat \<Rightarrow> regex" where
  "Lit c = Sym (\<lambda>t. t = c)"

definition LitI :: "nat \<Rightarrow> regex" where
  "LitI c = Sym (ci c)"

definition Plus :: "(nat \<Rightarrow> bool) \<Rightarrow> regex" where
  "Plus p = Seq (Sym p) (Star p)"

definition Opt :: "regex \<Rightarrow> regex" where
  "Opt r = Alt r Eps"

definition Str :: "string \<Rightarrow> regex" where
  "Str s = foldr (\<lambda>c r. Seq (Lit (of_char c)) r) s Eps"

definition StrI :: "string \<Rightarrow> regex" where
  "StrI s = foldr (\<lambda>c r. Seq (LitI (of_char c)) r) s Eps"

text \<open>
  The matcher backtracks as \<^verbatim>\<open>re\<close> does: it returns every way the expression can match
  at the start of the text, in the order in which \<^verbatim>\<open>re\<close> tries them (a greedy
  repetition tries the longest run first, an alternative its left branch first). A state
  is the code point before the position (None at the start of the string) and the rest
  of the text.
\<close>

type_synonym mstate = "nat option \<times> ustring"

fun star_results :: "(nat \<Rightarrow> bool) \<Rightarrow> nat option \<Rightarrow> ustring \<Rightarrow> mstate list" where
  "star_results p prev [] = [(prev, [])]"
| "star_results p prev (c # cs) =
     (if p c then star_results p (Some c) cs @ [(prev, c # cs)] else [(prev, c # cs)])"

definition word_at :: "(nat \<Rightarrow> bool) \<Rightarrow> nat option \<Rightarrow> bool" where
  "word_at w x = (case x of None \<Rightarrow> False | Some c \<Rightarrow> w c)"

definition next_char :: "ustring \<Rightarrow> nat option" where
  "next_char s = (case s of [] \<Rightarrow> None | c # _ \<Rightarrow> Some c)"

primrec rmatch :: "(nat \<Rightarrow> bool) \<Rightarrow> regex \<Rightarrow> nat option \<Rightarrow> ustring \<Rightarrow> mstate list" where
  "rmatch w (Sym p) = (\<lambda>prev s. case s of [] \<Rightarrow> [] | c # cs \<Rightarrow> if p c then [(Some c, cs)] else [])"
| "rmatch w (Star p) = (\<lambda>prev s. star_results p prev s)"
| "rmatch w (Seq a b) = (\<lambda>prev s. concat (map (\<lambda>st. rmatch w b (fst st) (snd st)) (rmatch w a prev s)))"
| "rmatch w (Alt a b) = (\<lambda>prev s. rmatch w a prev s @ rmatch w b prev s)"
| "rmatch w Eps = (\<lambda>prev s. [(prev, s)])"
| "rmatch w WordB = (\<lambda>prev s. if word_at w prev \<noteq> word_at w (next_char s) then [(prev, s)] else [])"
| "rmatch w Bol = (\<lambda>prev s. if prev = None \<or> prev = Some 10 then [(prev, s)] else [])"

text \<open>The match that \<^verbatim>\<open>re\<close> reports at a position is the first one; \<open>match_len\<close> is
  the number of code points it consumes.\<close>

definition match_len :: "unicode_db \<Rightarrow> regex \<Rightarrow> nat option \<Rightarrow> ustring \<Rightarrow> nat option" where
  "match_len R r prev s =
     (case rmatch (is_word R) r prev s of [] \<Rightarrow> None | st # _ \<Rightarrow> Some (length s - length (snd st)))"

text \<open>
  \<^verbatim>\<open>pattern.sub(repl, s)\<close> scans from the left; \<open>skip\<close> counts the code points of the
  current match that are still to be passed over. An empty match inserts the replacement
  and copies the code point (no pattern of the source can match the empty string).
\<close>

fun re_sub_from :: "unicode_db \<Rightarrow> regex \<Rightarrow> ustring \<Rightarrow> nat option \<Rightarrow> nat \<Rightarrow> ustring \<Rightarrow> ustring" where
  "re_sub_from R r repl prev skip [] =
     (if skip = 0 \<and> match_len R r prev [] \<noteq> None then repl else [])"
| "re_sub_from R r repl prev skip (c # cs) =
     (if 0 < skip then re_sub_from R r repl (Some c) (skip - 1) cs
      else case match_len R r prev (c # cs) of
             None \<Rightarrow> c # re_sub_from R r repl (Some c) 0 cs
           | Some n \<Rightarrow> if n = 0 then repl @ c # re_sub_from R r repl (Some c) 0 cs
                      else repl @ re_sub_from R r repl (Some c) (n - 1) cs)"

definition re_sub :: "unicode_db \<Rightarrow> regex \<Rightarrow> ustring \<Rightarrow> ustring \<Rightarrow> ustring" where
  "re_sub R r repl s = re_sub_from R r repl None 0 s"

text \<open>\<^verbatim>\<open>re.search(pattern, s)\<close>: the text of the leftmost match, if any.\<close>

fun re_search_from :: "unicode_db \<Rightarrow> regex \<Rightarrow> nat option \<Rightarrow> ustring \<Rightarrow> ustring option" where
  "re_search_from R r prev [] = (case match_len R r prev [] of None \<Rightarrow> None | Some n \<Rightarrow> Some [])"
| "re_search_from R r prev (c # cs) =
     (case match_len R r prev (c # cs) of
        None \<Rightarrow> re_search_from R r (Some c) cs
      | Some n \<Rightarrow> Some (take n (c # cs)))"

definition re_search :: "unicode_db \<Rightarrow> regex \<Rightarrow> ustring \<Rightarrow> ustring option" where
  "re_search R r s = re_search_from R r None s"

text \<open>\<^verbatim>\<open>re.findall(pattern, s)\<close> for a pattern without groups: the texts of the matches.\<close>

fun re_findall_from :: "unicode_db \<Rightarrow> regex \<Rightarrow> nat option \<Rightarrow> nat \<Rightarrow> ustring \<Rightarrow> ustring list" where
  "re_findall_from R r prev skip [] =
     (if skip = 0 \<and> match_len R r prev [] \<noteq> None then [[]] else [])"
| "re_findall_from R r prev skip (c # cs) =
     (if 0 < skip then re_findall_from R r (Some c) (skip - 1) cs
      else case match_len R r prev (c # cs) of
             None \<Rightarrow> re_findall_from R r (Some c) 0 cs
           | Some n \<Rightarrow> take n (c # cs) # re_findall_from R r (Some c) (n - 1) cs)"

definition re_findall :: "unicode_db \<Rightarrow> regex \<Rightarrow> ustring \<Rightarrow> ustring list" where
  "re_findall R r s = re_findall_from R r None 0 s"

text \<open>\<^verbatim>\<open>str.strip()\<close> and \<^verbatim>\<open>sep.join(xs)\<close>.\<close>

definition strip :: "ustring \<Rightarrow> ustring" where
  "strip s = rev (dropWhile is_space (rev (dropWhile is_space s)))"

fun py_join :: "ustring \<Rightarrow> ustring list \<Rightarrow> ustring" where
  "py_join sep [] = []"
| "py_join sep [x] = x"
| "py_join sep (x # y # ys) = x @ sep @ py_join sep (y # ys)"

section \<open>text_processor.py\<close>

record RedditComment =
  comment_id :: ustring
  comment_body :: ustring
  comment_score :: int
  comment_author :: ustring

record RedditPost =
  post_id :: ustring
  post_title :: ustring
  selftext :: ustring
  post_score :: int
  post_num_comments :: int
  created_utc :: real
  post_comments :: "RedditComment list"

record ProcessedPost =
  pp_id :: ustring
  original_title :: ustring
  original_body :: ustring
  cleaned_title :: ustring
  cleaned_body :: ustring
  cleaned_comments :: ustring
  combined_text :: ustring
  pp_score :: int
  pp_num_comments :: int
  pp_created_utc :: real
  has_content :: bool
  comment_count :: nat

text \<open>\<^verbatim>\<open>URL_PATTERN = https?://\S+|www\.\S+\<close>\<close>

definition URL_PATTERN :: regex where
  "URL_PATTERN =
     Alt (Seq (Str ''http'') (Seq (Opt (Lit 115)) (Seq (Str ''://'') (Plus non_space))))
         (Seq (Str ''www.'') (Plus non_space))"

text \<open>\<^verbatim>\<open>MARKDOWN_PATTERN\<close>: one of \<^verbatim>\<open>* _ ~ ` # [ ] ( ) > |\<close>\<close>

definition markdown_char :: "nat \<Rightarrow> bool" where
  "markdown_char c = (c \<in> set [42, 95, 126, 96, 35, 91, 93, 40, 41, 62, 124])"

definition MARKDOWN_PATTERN :: regex where
  "MARKDOWN_PATTERN = Sym markdown_char"

text \<open>\<^verbatim>\<open>HTML_ENTITIES = &[a-z]+;|&#\d+;\<close> with IGNORECASE\<close>

definition HTML_ENTITIES :: "unicode_db \<Rightarrow> regex" where
  "HTML_ENTITIES R =
     Alt (Seq (Lit 38) (Seq (Plus az_ignorecase) (Lit 59)))
         (Seq (Str ''&#'') (Seq (Plus (db_isdecimal R)) (Lit 59)))"

text \<open>\<^verbatim>\<open>EMOJI_PATTERN\<close>: a run of code points in U+1F600-1F64F, U+1F300-1F5FF,
  U+1F680-1F6FF, U+1F1E0-1F1FF, U+2600-26FF, U+2700-27BF.\<close>

definition emoji :: "nat \<Rightarrow> bool" where
  "emoji c = ((128512 \<le> c \<and> c \<le> 128591) \<or> (127744 \<le> c \<and> c \<le> 128511) \<or> (128640 \<le> c \<and> c \<le> 128767)
              \<or> (127456 \<le> c \<and> c \<le> 127487) \<or> (9728 \<le> c \<and> c \<le> 9983) \<or> (9984 \<le> c \<and> c \<le> 10175))"

definition EMOJI_PATTERN :: regex where
  "EMOJI_PATTERN = Plus emoji"

text \<open>\<^verbatim>\<open>REDDIT_NOISE\<close>, all with IGNORECASE:
  \<^verbatim>\<open>\bedit\s*\d*\s*:\<close>, \<^verbatim>\<open>\btl;?dr:?\<close>, \<^verbatim>\<open>thanks for (reading|coming to my ted talk)\<close>,
  \<^verbatim>\<open>obligatory .* disclaimer\<close>, \<^verbatim>\<open>^(source|sauce):?\s*\<close> (MULTILINE),
  \<^verbatim>\<open>\[removed\]|\[deleted\]\<close>.\<close>

definition REDDIT_NOISE :: "unicode_db \<Rightarrow> regex list" where
  "REDDIT_NOISE R =
     [ Seq WordB (Seq (StrI ''edit'') (Seq (Star is_space) (Seq (Star (db_isdecimal R))
         (Seq (Star is_space) (Lit 58))))),
       Seq WordB (Seq (StrI ''tl'') (Seq (Opt (Lit 59)) (Seq (StrI ''dr'') (Opt (Lit 58))))),
       Seq (StrI ''thanks for '') (Alt (StrI ''reading'') (StrI ''coming to my ted talk'')),
       Seq (StrI ''obligatory '') (Seq (Star dot) (StrI '' disclaimer'')),
       Seq Bol (Seq (Alt (StrI ''source'') (StrI ''sauce'')) (Seq (Opt (Lit 58)) (Star is_space))),
       Alt (StrI ''[removed]'') (StrI ''[deleted]'') ]"

definition MAX_BODY_LENGTH :: nat where
  "MAX_BODY_LENGTH = 1000"

definition MAX_COMMENTS_LENGTH :: nat where
  "MAX_COMMENTS_LENGTH = 2000"

text \<open>The six passes of \<^verbatim>\<open>clean_text\<close>, in the order of the source.\<close>

definition remove_urls :: "unicode_db \<Rightarrow> ustring \<Rightarrow> ustring" where
  "remove_urls R s = re_sub R URL_PATTERN [] s"

definition remove_markdown :: "unicode_db \<Rightarrow> ustring \<Rightarrow> ustring" where
  "remove_markdown R s = re_sub R MARKDOWN_PATTERN (u '' '') s"

definition remove_entities :: "unicode_db \<Rightarrow> ustring \<Rightarrow> ustring" where
  "remove_entities R s = re_sub R (HTML_ENTITIES R) (u '' '') s"

definition remove_emoji :: "unicode_db \<Rightarrow> ustring \<Rightarrow> ustring" where
  "remove_emoji R s = re_sub R EMOJI_PATTERN [] s"

definition remove_noise :: "unicode_db \<Rightarrow> ustring \<Rightarrow> ustring" where
  "remove_noise R s = fold (\<lambda>pattern cleaned. re_sub R pattern [] cleaned) (REDDIT_NOISE R) s"

definition normalize_whitespace :: "unicode_db \<Rightarrow> ustring \<Rightarrow> ustring" where
  "normalize_whitespace R s = strip (re_sub R (Plus is_space) (u '' '') s)"

definition clean_text :: "unicode_db \<Rightarrow> ustring \<Rightarrow> ustring" where
  "clean_text R text =
     (if text = [] then []
      else normalize_whitespace R (remove_noise R (remove_emoji R (remove_entities R
             (remove_markdown R (remove_urls R text))))))"

text \<open>The loop of \<^verbatim>\<open>process_post\<close> over the comments: its state is
  \<^verbatim>\<open>(comment_texts, total_len, comment_count)\<close>.\<close>

definition comment_step :: "unicode_db \<Rightarrow> RedditComment \<Rightarrow> ustring list \<times> nat \<times> nat \<Rightarrow> ustring list \<times> nat \<times> nat" where
  "comment_step R comment st =
     (case st of (comment_texts, total_len, cnt) \<Rightarrow>
        (let cleaned = clean_text R (comment_body comment)
         in if cleaned \<noteq> [] \<and> total_len + length cleaned < MAX_COMMENTS_LENGTH
            then (comment_texts @ [cleaned], total_len + length cleaned, cnt + 1)
            else (comment_texts, total_len, cnt)))"

definition comment_loop :: "unicode_db \<Rightarrow> RedditComment list \<Rightarrow> ustring list \<times> nat \<times> nat" where
  "comment_loop R cs = fold (comment_step R) cs ([], 0, 0)"

definition process_post :: "unicode_db \<Rightarrow> RedditPost \<Rightarrow> ProcessedPost" where
  "process_post R post =
     (let title = clean_text R (post_title post);
          body0 = clean_text R (selftext post);
          body = (if length body0 > MAX_BODY_LENGTH then take MAX_BODY_LENGTH body0 @ u ''...'' else body0);
          (comment_texts, total_len, cnt) = comment_loop R (post_comments post);
          comments = py_join (u '' | '') comment_texts
      in \<lparr> pp_id = post_id post,
           original_title = post_title post,
           original_body = selftext post,
           cleaned_title = title,
           cleaned_body = body,
           cleaned_comments = comments,
           combined_text = strip (title @ u '' '' @ title @ u '' '' @ body @ u '' '' @ comments),
           pp_score = post_score post,
           pp_num_comments = post_num_comments post,
           pp_created_utc = created_utc post,
           has_content = (length title > 5),
           comment_count = cnt \<rparr>)"

definition process_posts :: "unicode_db \<Rightarrow> RedditPost list \<Rightarrow> ProcessedPost list" where
  "process_posts R posts = filter has_content (map (process_post R) posts)"

section \<open>nlp_analyzer.py\<close>

datatype label = Positive | Neutral | Negative

record SentimentResult =
  sr_label :: label
  sr_score :: real
  raw_score :: real

record AnalyzedPost =
  ap_id :: ustring
  title :: ustring
  body :: ustring
  ap_cleaned_comments :: ustring
  score :: int
  num_comments :: int
  sentiment :: SentimentResult
  impact_score :: int

text \<open>
  The analyzer object: \<^verbatim>\<open>use_ml_models\<close>, the VADER scorer (its compound score) when
  it was loaded, and TextBlob's polarity when \<^verbatim>\<open>_textblob_ready\<close> is set (the polarity
  is None where the call raises, which the source catches). The scores of both libraries
  are doubles; the literals \<^verbatim>\<open>0.6\<close>, \<^verbatim>\<open>0.4\<close> and \<^verbatim>\<open>0.05\<close> are the doubles nearest to
  them, and the blend is computed in doubles.
\<close>

record NLPAnalyzer =
  use_ml_models :: bool
  vader_analyzer :: "(ustring \<Rightarrow> real) option"
  textblob :: "(ustring \<Rightarrow> real option) option"

definition THEME_KEYWORDS :: "(string \<times> string list) list" where
  "THEME_KEYWORDS =
     [ (''Battery & Power'',
          [''battery'', ''charge'', ''charging'', ''drain'', ''power'', ''sot'',
           ''fast charging'', ''wireless charging'', ''dead'', ''percentage'']),
       (''Camera & Photography'',
          [''camera'', ''photo'', ''picture'', ''lens'', ''zoom'', ''portrait'',
           ''night sight'', ''video'', ''recording'', ''selfie'', ''megapixel'']),
       (''Software & Updates'',
          [''update'', ''android'', ''software'', ''bug'', ''patch'', ''fix'',
           ''feature'', ''app'', ''version'', ''beta'', ''stable'']),
       (''Hardware Quality'',
          [''screen'', ''display'', ''build'', ''quality'', ''glass'', ''speaker'',
           ''fingerprint'', ''crack'', ''scratch'', ''durable'', ''design'']),
       (''Performance'',
          [''performance'', ''fast'', ''slow'', ''lag'', ''smooth'', ''heat'',
           ''overheating'', ''hot'', ''throttle'', ''ram'', ''memory'', ''speed'']),
       (''Customer Support'',
          [''support'', ''warranty'', ''rma'', ''repair'', ''replacement'',
           ''refund'', ''return'', ''google'', ''response'', ''shipping'']),
       (''Connectivity'',
          [''wifi'', ''bluetooth'', ''signal'', ''network'', ''5g'', ''lte'',
           ''connection'', ''drop'', ''esim'', ''carrier'', ''cellular'']) ]"

definition SENTIMENT_LEXICON :: "(string \<times> int) list" where
  "SENTIMENT_LEXICON =
     [ (''amazing'', 5), (''excellent'', 5), (''perfect'', 5), (''love'', 4), (''great'', 4),
       (''awesome'', 4), (''fantastic'', 5), (''wonderful'', 4), (''best'', 4), (''impressed'', 4),
       (''good'', 3), (''nice'', 3), (''happy'', 3), (''helpful'', 3), (''smooth'', 3),
       (''fast'', 3), (''reliable'', 3), (''solid'', 3), (''better'', 3), (''improved'', 3),
       (''okay'', 1), (''fine'', 1), (''decent'', 2), (''works'', 2), (''useful'', 2),
       (''issue'', -1), (''concern'', -1), (''confusing'', -1), (''mediocre'', -1),
       (''bad'', -2), (''poor'', -2), (''problem'', -2), (''annoying'', -2), (''disappointed'', -3),
       (''frustrating'', -2), (''slow'', -2), (''laggy'', -2), (''buggy'', -2), (''broken'', -2),
       (''crash'', -2), (''error'', -2), (''fail'', -2), (''failed'', -2), (''freezing'', -2),
       (''terrible'', -4), (''awful'', -4), (''horrible'', -4), (''worst'', -4), (''hate'', -3),
       (''useless'', -3), (''defective'', -3), (''garbage'', -3), (''waste'', -3), (''scam'', -4) ]"

definition lexicon_lookup :: "ustring \<Rightarrow> int option" where
  "lexicon_lookup word = map_of (map (\<lambda>kv. (u (fst kv), snd kv)) SENTIMENT_LEXICON) word"

text \<open>\<^verbatim>\<open>re.findall(r'\b\w+\b', text.lower())\<close>. The square root and the two divisions
  of the lexicon strategy are taken over the reals.\<close>

definition WORD_PATTERN :: "unicode_db \<Rightarrow> regex" where
  "WORD_PATTERN R = Seq WordB (Seq (Plus (is_word R)) WordB)"

definition lexicon_step :: "ustring \<Rightarrow> int \<times> nat \<Rightarrow> int \<times> nat" where
  "lexicon_step word st =
     (if lexicon_lookup word \<noteq> None then (fst st + the (lexicon_lookup word), snd st + 1) else st)"

definition analyze_sentiment_lexicon :: "unicode_db \<Rightarrow> ustring \<Rightarrow> SentimentResult" where
  "analyze_sentiment_lexicon R text =
     (let words = re_findall R (WORD_PATTERN R) (db_lower R text);
          st = fold lexicon_step words (0, 0);
          normalized = (if snd st > 0 then real_of_int (fst st) / sqrt (real (snd st)) else 0);
          lbl = (if normalized > 1/2 then Positive else if normalized < - (1/2) then Negative else Neutral)
      in \<lparr> sr_label = lbl, sr_score = \<bar>normalized\<bar> / 5, raw_score = normalized \<rparr>)"

definition classify_compound :: "real \<Rightarrow> label" where
  "classify_compound c =
     (if c \<ge> to_double (5/100) then Positive else if c \<le> - to_double (5/100) then Negative else Neutral)"

definition analyze_sentiment_ml :: "NLPAnalyzer \<Rightarrow> unicode_db \<Rightarrow> ustring \<Rightarrow> SentimentResult" where
  "analyze_sentiment_ml A R text =
     (case vader_analyzer A of
        None \<Rightarrow> analyze_sentiment_lexicon R text
      | Some polarity_scores \<Rightarrow>
          (let compound = polarity_scores text;
               combined = (case textblob A of
                             None \<Rightarrow> compound
                           | Some blob \<Rightarrow> (case blob text of
                                             None \<Rightarrow> compound
                                           | Some tb_polarity \<Rightarrow>
                                               to_double (to_double (compound * to_double (6/10))
                                                          + to_double (tb_polarity * to_double (4/10)))))
           in \<lparr> sr_label = classify_compound combined, sr_score = \<bar>combined\<bar>, raw_score = combined \<rparr>))"

definition analyze_sentiment :: "NLPAnalyzer \<Rightarrow> unicode_db \<Rightarrow> ustring \<Rightarrow> SentimentResult" where
  "analyze_sentiment A R text =
     (if use_ml_models A \<and> vader_analyzer A \<noteq> None then analyze_sentiment_ml A R text
      else analyze_sentiment_lexicon R text)"

definition analyze_post :: "NLPAnalyzer \<Rightarrow> unicode_db \<Rightarrow> ProcessedPost \<Rightarrow> AnalyzedPost" where
  "analyze_post A R post =
     (let sent = analyze_sentiment A R (combined_text post);
          negative_weight = (if sr_label sent = Negative then 10 else 0)
      in \<lparr> ap_id = pp_id post,
           title = cleaned_title post,
           body = cleaned_body post,
           ap_cleaned_comments = cleaned_comments post,
           score = pp_score post,
           num_comments = pp_num_comments post,
           sentiment = sent,
           impact_score = pp_score post + pp_num_comments post + negative_weight \<rparr>)"

definition analyze_posts :: "NLPAnalyzer \<Rightarrow> unicode_db \<Rightarrow> ProcessedPost list \<Rightarrow> AnalyzedPost list" where
  "analyze_posts A R processed_posts = map (analyze_post A R) processed_posts"

text \<open>\<^verbatim>\<open>round(x, 1)\<close> on a float: the exact value of the double is rounded to a whole
  number of tenths, a tie to the even one, and the result is the double nearest to that
  decimal.\<close>

definition py_round1 :: "real \<Rightarrow> real" where
  "py_round1 x = to_double (of_int (round_half_even (x * 10)) / 10)"

text \<open>\<^verbatim>\<open>round((count / total) * 100, 1)\<close>: the division of two integers is the exact
  quotient rounded to a double, and the product with 100 is rounded again.\<close>

definition percentage :: "nat \<Rightarrow> nat \<Rightarrow> real" where
  "percentage c t = py_round1 (to_double (to_double (real c / real t) * 100))"

record distribution =
  dist_positive :: real
  dist_neutral :: real
  dist_negative :: real

definition label_count :: "label \<Rightarrow> AnalyzedPost list \<Rightarrow> nat" where
  "label_count l analyzed_posts = length (filter (\<lambda>p. sr_label (sentiment p) = l) analyzed_posts)"

definition calculate_sentiment_distribution :: "AnalyzedPost list \<Rightarrow> distribution" where
  "calculate_sentiment_distribution analyzed_posts =
     (if analyzed_posts = [] then \<lparr> dist_positive = 0, dist_neutral = 0, dist_negative = 0 \<rparr>
      else \<lparr> dist_positive = percentage (label_count Positive analyzed_posts) (length analyzed_posts),
             dist_neutral = percentage (label_count Neutral analyzed_posts) (length analyzed_posts),
             dist_negative = percentage (label_count Negative analyzed_posts) (length analyzed_posts) \<rparr>)"

text \<open>\<^verbatim>\<open>kw in text\<close>\<close>

fun starts_with :: "ustring \<Rightarrow> ustring \<Rightarrow> bool" where
  "starts_with [] text = True"
| "starts_with (k # ks) [] = False"
| "starts_with (k # ks) (c # cs) = (k = c \<and> starts_with ks cs)"

fun str_contains :: "ustring \<Rightarrow> ustring \<Rightarrow> bool" where
  "str_contains kw [] = (kw = [])"
| "str_contains kw (c # cs) = (starts_with kw (c # cs) \<or> str_contains kw cs)"

datatype mood = MoodPositive | MoodNegative | MoodMixed | MoodNeutral

text \<open>A theme of the result. The \<^verbatim>\<open>explanation\<close> sentence of the source, a formatted
  percentage, is left out: nothing below reads it.\<close>

record theme =
  theme_name :: string
  theme_count :: nat
  theme_mood :: mood
  theme_examples_of :: "ustring list"

text \<open>The three dictionaries of \<^verbatim>\<open>extract_themes\<close>, keyed by theme name.\<close>

record theme_state =
  theme_counts :: "string \<Rightarrow> nat"
  theme_sentiment :: "string \<Rightarrow> label \<Rightarrow> nat"
  theme_examples :: "string \<Rightarrow> ustring list"

definition theme_init :: theme_state where
  "theme_init = \<lparr> theme_counts = (\<lambda>_. 0), theme_sentiment = (\<lambda>_ _. 0), theme_examples = (\<lambda>_. []) \<rparr>"

definition keyword_matches :: "string list \<Rightarrow> ustring \<Rightarrow> nat" where
  "keyword_matches keywords text = length (filter (\<lambda>kw. str_contains (u kw) text) keywords)"

definition theme_step :: "ustring \<Rightarrow> AnalyzedPost \<Rightarrow> string \<times> string list \<Rightarrow> theme_state \<Rightarrow> theme_state" where
  "theme_step text post tk st =
     (if keyword_matches (snd tk) text > 0
      then \<lparr> theme_counts = (theme_counts st)(fst tk := theme_counts st (fst tk) + keyword_matches (snd tk) text),
             theme_sentiment = (theme_sentiment st)(fst tk :=
                (theme_sentiment st (fst tk))(sr_label (sentiment post) :=
                   theme_sentiment st (fst tk) (sr_label (sentiment post)) + 1)),
             theme_examples = (if length (theme_examples st (fst tk)) < 2
                               then (theme_examples st)(fst tk := theme_examples st (fst tk) @ [take 70 (title post)])
                               else theme_examples st) \<rparr>
      else st)"

definition theme_text :: "unicode_db \<Rightarrow> AnalyzedPost \<Rightarrow> ustring" where
  "theme_text R post = db_lower R (title post @ u '' '' @ body post)"

definition post_step :: "unicode_db \<Rightarrow> AnalyzedPost \<Rightarrow> theme_state \<Rightarrow> theme_state" where
  "post_step R post st = fold (theme_step (theme_text R post) post) THEME_KEYWORDS st"

definition theme_loop :: "unicode_db \<Rightarrow> AnalyzedPost list \<Rightarrow> theme_state" where
  "theme_loop R analyzed_posts = fold (post_step R) analyzed_posts theme_init"

definition classify_mood :: "(label \<Rightarrow> nat) \<Rightarrow> mood" where
  "classify_mood s =
     (if s Positive + s Neutral + s Negative > 0
      then (if real (s Negative) / real (s Positive + s Neutral + s Negative) > 1/2 then MoodNegative
            else if real (s Positive) / real (s Positive + s Neutral + s Negative) > 1/2 then MoodPositive
            else MoodMixed)
      else MoodNeutral)"

definition build_theme :: "theme_state \<Rightarrow> string \<Rightarrow> theme" where
  "build_theme st name =
     \<lparr> theme_name = name, theme_count = theme_counts st name,
       theme_mood = classify_mood (theme_sentiment st name),
       theme_examples_of = theme_examples st name \<rparr>"

text \<open>\<^verbatim>\<open>sorted(xs, key=k, reverse=True)\<close> and \<^verbatim>\<open>xs.sort(key=k, reverse=True)\<close>: Python's
  sort is stable, also when reversed, so elements with equal keys keep their order.\<close>

definition sorted_reverse :: "('a \<Rightarrow> int) \<Rightarrow> 'a list \<Rightarrow> 'a list" where
  "sorted_reverse k xs = sort_key (\<lambda>x. - k x) xs"

definition theme_results :: "theme_state \<Rightarrow> theme list" where
  "theme_results st =
     map (build_theme st) (filter (\<lambda>name. theme_counts st name > 0) (map fst THEME_KEYWORDS))"

definition extract_themes :: "unicode_db \<Rightarrow> AnalyzedPost list \<Rightarrow> theme list" where
  "extract_themes R analyzed_posts =
     take 6 (sorted_reverse (\<lambda>t. int (theme_count t)) (theme_results (theme_loop R analyzed_posts)))"

text \<open>\<^verbatim>\<open>xs[:n]\<close> for a Python integer \<open>n\<close>: a negative \<open>n\<close> counts from the end.\<close>

definition py_prefix :: "int \<Rightarrow> 'a list \<Rightarrow> 'a list" where
  "py_prefix n xs = (if 0 \<le> n then take (nat n) xs else take (length xs - nat (- n)) xs)"

record issue =
  issue_title :: ustring
  issue_impact_score :: int
  issue_score :: int
  issue_comments :: int
  issue_sentiment :: label

definition issue_of :: "AnalyzedPost \<Rightarrow> issue" where
  "issue_of p = \<lparr> issue_title = take 100 (title p), issue_impact_score = impact_score p,
                  issue_score = score p, issue_comments = num_comments p,
                  issue_sentiment = sr_label (sentiment p) \<rparr>"

definition get_high_impact_issues :: "AnalyzedPost list \<Rightarrow> int \<Rightarrow> issue list" where
  "get_high_impact_issues analyzed_posts top_n =
     map issue_of (py_prefix top_n (sorted_reverse impact_score analyzed_posts))"

section \<open>ollama_insights.py\<close>

text \<open>
  A value that \<^verbatim>\<open>json.loads\<close> returns, with Python's truth value. \<^verbatim>\<open>json.loads\<close>
  itself is a parameter \<open>loads\<close>: None where it raises.
\<close>

datatype json = JNull | JBool bool | JNum real | JStr ustring | JArr "json list" | JObj "(ustring \<times> json) list"

fun truthy :: "json \<Rightarrow> bool" where
  "truthy JNull = False"
| "truthy (JBool b) = b"
| "truthy (JNum x) = (x \<noteq> 0)"
| "truthy (JStr s) = (s \<noteq> [])"
| "truthy (JArr xs) = (xs \<noteq> [])"
| "truthy (JObj kvs) = (kvs \<noteq> [])"

text \<open>
  The client of the generative model. What \<^verbatim>\<open>_generate\<close> answers is outside the
  program, so the answer to each of the two structured requests is a field of the client;
  \<^verbatim>\<open>_generate\<close> catches every error of the provider and answers the empty string then.
\<close>

record AIInsights =
  deep_insights_response :: ustring
  action_items_response :: ustring

text \<open>\<^verbatim>\<open>re.search(r'\{[\s\S]*\}', response)\<close>\<close>

definition JSON_PATTERN :: regex where
  "JSON_PATTERN = Seq (Lit 123) (Seq (Star (\<lambda>c. is_space c \<or> non_space c)) (Lit 125))"

definition empty_structure :: json where
  "empty_structure =
     JObj [(u ''likes'', JArr []), (u ''frustrations'', JArr []), (u ''improving'', JArr []),
           (u ''worsening'', JArr []), (u ''opportunities'', JArr [])]"

definition generate_deep_insights :: "unicode_db \<Rightarrow> (ustring \<Rightarrow> json option) \<Rightarrow> AIInsights \<Rightarrow> json" where
  "generate_deep_insights R loads a =
     (case re_search R JSON_PATTERN (deep_insights_response a) of
        None \<Rightarrow> empty_structure
      | Some g \<Rightarrow> (case loads g of None \<Rightarrow> empty_structure | Some v \<Rightarrow> v))"


section \<open>report_generator.py\<close>

definition or_placeholder :: "ustring list \<Rightarrow> string \<Rightarrow> ustring list" where
  "or_placeholder xs msg = (if xs = [] then [u msg] else xs)"

definition likes_of :: "AnalyzedPost list \<Rightarrow> ustring list" where
  "likes_of analyzed_posts =
     or_placeholder
       (map (\<lambda>p. take 100 (title p))
          (take 3 (sorted_reverse score (filter (\<lambda>p. sr_label (sentiment p) = Positive) analyzed_posts))))
       ''No strongly positive posts in this sample''"

definition frustrations_of :: "AnalyzedPost list \<Rightarrow> ustring list" where
  "frustrations_of analyzed_posts =
     or_placeholder
       (map (\<lambda>p. take 100 (title p))
          (take 3 (sorted_reverse impact_score (filter (\<lambda>p. sr_label (sentiment p) = Negative) analyzed_posts))))
       ''No significant frustrations detected''"

definition worsening_of :: "theme list \<Rightarrow> ustring list" where
  "worsening_of themes =
     or_placeholder (map (\<lambda>t. u (theme_name t)) (filter (\<lambda>t. theme_mood t = MoodNegative) themes))
       ''No clear worsening trends detected''"

definition improving_of :: "theme list \<Rightarrow> ustring list" where
  "improving_of themes =
     or_placeholder (map (\<lambda>t. u (theme_name t)) (filter (\<lambda>t. theme_mood t = MoodPositive) themes))
       ''No clear improving trends detected''"

definition baseline_insights :: "AnalyzedPost list \<Rightarrow> theme list \<Rightarrow> json" where
  "baseline_insights analyzed_posts themes =
     JObj [(u ''likes'', JArr (map JStr (likes_of analyzed_posts))),
           (u ''frustrations'', JArr (map JStr (frustrations_of analyzed_posts))),
           (u ''worsening'', JArr (map JStr (worsening_of themes))),
           (u ''improving'', JArr (map JStr (improving_of themes))),
           (u ''opportunities'', JArr [JStr (u ''Increase sample size for better opportunity detection'')])]"

definition generate_product_insights ::
  "unicode_db \<Rightarrow> (ustring \<Rightarrow> json option) \<Rightarrow> AIInsights option \<Rightarrow> AnalyzedPost list \<Rightarrow> theme list \<Rightarrow> json" where
  "generate_product_insights R loads ai analyzed_posts themes =
     (case ai of
        None \<Rightarrow> baseline_insights analyzed_posts themes
      | Some a \<Rightarrow> (if truthy (generate_deep_insights R loads a) then generate_deep_insights R loads a
                   else baseline_insights analyzed_posts themes))"

text \<open>The report. The executive summary and the time stamp of the source are left out:
  nothing below reads them.\<close>

record InsightReport =
  subreddit :: ustring
  posts_analyzed :: nat
  analysis_mode :: ustring
  processing_time_ms :: real
  sentiment_distribution :: distribution
  themes :: "theme list"
  product_insights :: json
  high_impact_issues :: "issue list"
  ai_enhanced :: bool
  action_items :: "json option"


section \<open>The properties, as predicates and reference functions\<close>

text \<open>A text contains a URL, or a raw HTML entity, when the pattern of the source finds
  a match in it; it contains an emoji when one of its code points is in the ranges of
  \<^verbatim>\<open>EMOJI_PATTERN\<close>.\<close>

definition contains_url :: "unicode_db \<Rightarrow> ustring \<Rightarrow> bool" where
  "contains_url R s = (re_search R URL_PATTERN s \<noteq> None)"

definition contains_html_entity :: "unicode_db \<Rightarrow> ustring \<Rightarrow> bool" where
  "contains_html_entity R s = (re_search R (HTML_ENTITIES R) s \<noteq> None)"

definition contains_emoji :: "ustring \<Rightarrow> bool" where
  "contains_emoji s = list_ex emoji s"

text \<open>Greedy first-fit under a cap, in the words of the specification: going through the
  texts in order, a non-empty text is kept whole when the lengths kept so far plus its
  own stay below the cap, and is dropped otherwise.\<close>

fun first_fit :: "nat \<Rightarrow> nat \<Rightarrow> ustring list \<Rightarrow> ustring list" where
  "first_fit cap used [] = []"
| "first_fit cap used (x # xs) =
     (if x \<noteq> [] \<and> used + length x < cap then x # first_fit cap (used + length x) xs
      else first_fit cap used xs)"

text \<open>The number of occurrences of a keyword in a text (the positions at which it
  starts), and the mention count as the specification words it: the occurrences of the
  theme's keywords, summed over the documents.\<close>

fun count_occurrences :: "ustring \<Rightarrow> ustring \<Rightarrow> nat" where
  "count_occurrences kw [] = 0"
| "count_occurrences kw (c # cs) = (if starts_with kw (c # cs) then 1 else 0) + count_occurrences kw cs"

definition spec_mention_count :: "unicode_db \<Rightarrow> string list \<Rightarrow> AnalyzedPost list \<Rightarrow> nat" where
  "spec_mention_count R keywords analyzed_posts =
     sum_list (map (\<lambda>p. sum_list (map (\<lambda>kw. count_occurrences (u kw) (theme_text R p)) keywords)) analyzed_posts)"

text \<open>The keywords of a theme that occur in the text of one document.\<close>

definition theme_hits :: "unicode_db \<Rightarrow> string \<Rightarrow> AnalyzedPost \<Rightarrow> nat" where
  "theme_hits R name p =
     (case map_of THEME_KEYWORDS name of None \<Rightarrow> 0 | Some kws \<Rightarrow> keyword_matches kws (theme_text R p))"

text \<open>Inputs for the concrete instances below.\<close>

definition analyzed :: "string \<Rightarrow> int \<Rightarrow> int \<Rightarrow> label \<Rightarrow> AnalyzedPost" where
  "analyzed t s n l =
     \<lparr> ap_id = [], title = u t, body = [], ap_cleaned_comments = [], score = s, num_comments = n,
       sentiment = \<lparr> sr_label = l, sr_score = 0, raw_score = 0 \<rparr>,
       impact_score = s + n + (if l = Negative then 10 else 0) \<rparr>"

definition reddit_post :: "ustring \<Rightarrow> ustring \<Rightarrow> ustring list \<Rightarrow> RedditPost" where
  "reddit_post t b cs =
     \<lparr> post_id = [], post_title = t, selftext = b, post_score = 3, post_num_comments = 2, created_utc = 0,
       post_comments = map (\<lambda>c. \<lparr> comment_id = [], comment_body = c, comment_score = 1, comment_author = [] \<rparr>) cs \<rparr>"

definition spliced_url :: ustring where
  "spliced_url = u ''http:/'' @ [9728] @ u ''/example.com''"

definition spliced_entity :: ustring where
  "spliced_entity = u ''&am'' @ [9728] @ u ''p;''"

definition lexicon_analyzer :: NLPAnalyzer where
  "lexicon_analyzer = \<lparr> use_ml_models = False, vader_analyzer = None, textblob = None \<rparr>"

definition silent_ai :: AIInsights where
  "silent_ai = \<lparr> deep_insights_response = [], action_items_response = [] \<rparr>"

section \<open>Sorting and evaluation lemmas\<close>

lemma sorted_reverse_desc:
  "sorted_wrt (\<lambda>a b. k b \<le> k a) (sorted_reverse k xs)"
proof -
  have "sorted (map (\<lambda>x. - k x) (sorted_reverse k xs))"
    unfolding sorted_reverse_def by (rule sorted_sort_key)
  then show ?thesis by (simp add: sorted_map)
qed

lemma sorted_reverse_stable:
  "filter (\<lambda>x. k x = v) (sorted_reverse k xs) = filter (\<lambda>x. k x = v) xs"
proof -
  have "filter (\<lambda>x. - k x = - v) (sort_key (\<lambda>x. - k x) xs) = filter (\<lambda>x. - k x = - v) xs"
    by (rule sort_key_stable)
  then show ?thesis by (simp add: sorted_reverse_def)
qed

lemma sorted_reverse_mset: "mset (sorted_reverse k xs) = mset xs"
  by (simp add: sorted_reverse_def)

lemma set_sorted_reverse: "set (sorted_reverse k xs) = set xs"
  by (simp add: sorted_reverse_def)

lemmas theme_eval = extract_themes_def theme_loop_def post_step_def theme_step_def theme_text_def
  keyword_matches_def THEME_KEYWORDS_def theme_results_def build_theme_def sorted_reverse_def
  classify_mood_def theme_init_def analyzed_def ascii_db_def ascii_lower_char_def u_def

lemma themes_of_battery_post:
  "extract_themes ascii_db [analyzed ''Battery battery camera'' 1 0 Neutral]
     = [\<lparr> theme_name = ''Battery & Power'', theme_count = 1, theme_mood = MoodMixed,
           theme_examples_of = [u ''Battery battery camera''] \<rparr>,
        \<lparr> theme_name = ''Camera & Photography'', theme_count = 1, theme_mood = MoodMixed,
           theme_examples_of = [u ''Battery battery camera''] \<rparr>]"
  by (simp add: theme_eval)

section \<open>Rounding to doubles\<close>

lemma pow2_powr: "pow2 e = 2 powr (of_int e)"
proof (cases "0 \<le> e")
  case True
  then have "(2::real) powr (of_int e) = 2 powr (real (nat e))" by simp
  also have "\<dots> = 2 ^ nat e" by (simp add: powr_realpow)
  finally show ?thesis using True by (simp add: pow2_def)
next
  case False
  then have "(2::real) powr (of_int e) = 2 powr (- real (nat (- e)))" by simp
  also have "\<dots> = 1 / 2 ^ nat (- e)" by (simp add: powr_minus powr_realpow divide_inverse)
  finally show ?thesis using False by (simp add: pow2_def)
qed

lemma pow2_pos: "0 < pow2 e"
  by (simp add: pow2_powr)

lemma pow2_mono: "a \<le> b \<Longrightarrow> pow2 a \<le> pow2 b"
  by (simp add: pow2_powr)

lemma round_half_even_error: "\<bar>of_int (round_half_even y) - y\<bar> \<le> 1/2"
proof -
  have "of_int \<lfloor>y\<rfloor> \<le> y" "y < of_int \<lfloor>y\<rfloor> + 1" by linarith+
  then show ?thesis by (auto simp: round_half_even_def)
qed

lemma floor_log2:
  assumes "pow2 e \<le> x" "x < pow2 (e + 1)"
  shows "\<lfloor>log 2 x\<rfloor> = e"
proof -
  have x: "0 < x" using assms(1) pow2_pos [of e] by linarith
  have "of_int e \<le> log 2 x"
    using assms(1) x by (simp add: pow2_powr le_log_iff)
  moreover have "log 2 x < of_int e + 1"
    using assms(2) x by (simp add: pow2_powr log_less_iff add.commute)
  ultimately show ?thesis by linarith
qed

lemma to_double_eval:
  assumes "pow2 e \<le> \<bar>x\<bar>" "\<bar>x\<bar> < pow2 (e + 1)" "- 1022 \<le> e"
  shows "to_double x = of_int (round_half_even (x / pow2 (e - 52))) * pow2 (e - 52)"
proof -
  have "x \<noteq> 0" using assms(1) pow2_pos [of e] by auto
  moreover have "float_exponent x = e"
    using floor_log2 [OF assms(1,2)] assms(3) by (simp add: float_exponent_def)
  ultimately show ?thesis by (simp add: to_double_def)
qed

lemma float_exponent_le:
  assumes "x \<noteq> 0" "\<bar>x\<bar> \<le> 128"
  shows "float_exponent x \<le> 7"
proof -
  have "log 2 \<bar>x\<bar> \<le> log 2 128" using assms by simp
  also have "log 2 128 = 7"
  proof -
    have "(128::real) = 2 powr 7" by simp
    then show ?thesis by (simp only: log_powr_cancel)
  qed
  finally have "\<lfloor>log 2 \<bar>x\<bar>\<rfloor> \<le> 7" by linarith
  then show ?thesis by (simp add: float_exponent_def)
qed

lemma to_double_error:
  assumes "\<bar>x\<bar> \<le> 128"
  shows "\<bar>to_double x - x\<bar> \<le> 1 / 2 ^ 46"
proof (cases "x = 0")
  case True
  then show ?thesis by (simp add: to_double_def)
next
  case False
  define q where "q = pow2 (float_exponent x - 52)"
  have qpos: "0 < q" unfolding q_def by (rule pow2_pos)
  have "q \<le> pow2 (- 45)"
    unfolding q_def using float_exponent_le [OF False assms] by (intro pow2_mono) simp
  then have qle: "q \<le> 1 / 2 ^ 45" by (simp add: pow2_def)
  have td: "to_double x = of_int (round_half_even (x / q)) * q"
    using False by (simp add: to_double_def q_def)
  have "\<bar>of_int (round_half_even (x / q)) - x / q\<bar> \<le> 1/2" by (rule round_half_even_error)
  then have "\<bar>of_int (round_half_even (x / q)) - x / q\<bar> * q \<le> 1/2 * q"
    using qpos by (intro mult_right_mono) simp_all
  moreover have "\<bar>of_int (round_half_even (x / q)) - x / q\<bar> * q = \<bar>of_int (round_half_even (x / q)) * q - x\<bar>"
  proof -
    have "\<bar>of_int (round_half_even (x / q)) - x / q\<bar> * q = \<bar>(of_int (round_half_even (x / q)) - x / q) * q\<bar>"
      using qpos by (simp add: abs_mult)
    also have "(of_int (round_half_even (x / q)) - x / q) * q = of_int (round_half_even (x / q)) * q - x"
      using qpos by (simp add: left_diff_distrib)
    finally show ?thesis .
  qed
  ultimately have "\<bar>to_double x - x\<bar> \<le> 1/2 * q" by (simp add: td)
  also have "\<dots> \<le> 1/2 * (1 / 2 ^ 45)" using qle by simp
  finally show ?thesis by simp
qed

lemma compound_minus_one: "classify_compound (- 1) = Negative"
proof -
  have "\<bar>to_double (5/100) - 5/100\<bar> \<le> 1 / 2 ^ 46" by (rule to_double_error) simp
  then have "0 < to_double (5/100) \<and> to_double (5/100) \<le> 1" by (simp add: abs_if split: if_splits)
  then show ?thesis by (simp add: classify_compound_def)
qed

section \<open>Impact score\<close>

text \<open>
  C3. For every analyzed document, \<open>impact_score\<close> is \<open>score + num_comments\<close> plus exactly
  10 when the sentiment label is negative and 0 otherwise; so it is at least
  \<open>score + num_comments\<close>, with equality exactly when the label is not negative. The
  score and the comment count are those of the processed document.
\<close>

theorem impact_score_formula:
  "a \<in> set (analyze_posts A R processed_posts) \<Longrightarrow>
     impact_score a = score a + num_comments a + (if sr_label (sentiment a) = Negative then 10 else 0)
     \<and> score a + num_comments a \<le> impact_score a
     \<and> (impact_score a = score a + num_comments a \<longleftrightarrow> sr_label (sentiment a) \<noteq> Negative)
     \<and> (\<exists>p \<in> set processed_posts. score a = pp_score p \<and> num_comments a = pp_num_comments p)"
  by (auto simp: analyze_posts_def analyze_post_def Let_def)

theorem impact_score_formula_witness:
  "analyze_post \<lparr> use_ml_models = True, vader_analyzer = Some (\<lambda>t. - 1), textblob = None \<rparr> ascii_db
       (process_post ascii_db (reddit_post (u ''Battery died'') [] []))
     \<in> set (analyze_posts \<lparr> use_ml_models = True, vader_analyzer = Some (\<lambda>t. - 1), textblob = None \<rparr> ascii_db
              [process_post ascii_db (reddit_post (u ''Battery died'') [] [])])
   \<and> impact_score (analyze_post \<lparr> use_ml_models = True, vader_analyzer = Some (\<lambda>t. - 1), textblob = None \<rparr> ascii_db
       (process_post ascii_db (reddit_post (u ''Battery died'') [] []))) = 3 + 2 + 10"
  using impact_score_formula [of
      "analyze_post \<lparr> use_ml_models = True, vader_analyzer = Some (\<lambda>t. - 1), textblob = None \<rparr> ascii_db
         (process_post ascii_db (reddit_post (u ''Battery died'') [] []))"
      "\<lparr> use_ml_models = True, vader_analyzer = Some (\<lambda>t. - 1), textblob = None \<rparr>" ascii_db
      "[process_post ascii_db (reddit_post (u ''Battery died'') [] [])]"]
  by (simp add: analyze_posts_def analyze_post_def analyze_sentiment_def analyze_sentiment_ml_def
      compound_minus_one process_post_def reddit_post_def Let_def case_prod_beta)

section \<open>Sentiment distribution\<close>

lemma d_third: "to_double (1/3) = 6004799503160661 / 18014398509481984"
  using to_double_eval [of "-2" "1/3"] by (simp add: pow2_def round_half_even_def)

lemma d_third_100: "to_double (6004799503160661 / 18014398509481984 * 100) = 2345624805922133 / 70368744177664"
  using to_double_eval [of 5 "6004799503160661 / 18014398509481984 * 100"] by (simp add: pow2_def round_half_even_def)

lemma r_third: "py_round1 (2345624805922133 / 70368744177664) = 2343279181116211 / 70368744177664"
  using to_double_eval [of 5 "333 / 10"] by (simp add: py_round1_def pow2_def round_half_even_def)

lemma percentage_1_3: "percentage 1 3 = 2343279181116211 / 70368744177664"
proof -
  have "percentage 1 3 = py_round1 (to_double (to_double (1/3) * 100))"
    unfolding percentage_def by simp
  then show ?thesis by (simp only: d_third d_third_100 r_third)
qed

text \<open>23 of 80 is 28.75 exactly, a tie; the double quotient times 100 is just below it, and
  the percentage is the double nearest to 28.7, as in CPython. Likewise 49 of 80 gives 61.3.\<close>

lemma percentage_23_80: "percentage 23 80 = 8078331831595827 / 281474976710656"
proof -
  have a: "to_double (23/80) = 2589569785738035 / 9007199254740992"
    using to_double_eval [of "-2" "23/80"] by (simp add: pow2_def round_half_even_def)
  have b: "to_double (2589569785738035 / 9007199254740992 * 100) = 8092405580431359 / 281474976710656"
    using to_double_eval [of 4 "2589569785738035 / 9007199254740992 * 100"]
    by (simp add: pow2_def round_half_even_def)
  have c: "py_round1 (8092405580431359 / 281474976710656) = 8078331831595827 / 281474976710656"
    using to_double_eval [of 4 "287 / 10"] by (simp add: py_round1_def pow2_def round_half_even_def)
  have "percentage 23 80 = py_round1 (to_double (to_double (23/80) * 100))"
    unfolding percentage_def by simp
  then show ?thesis by (simp only: a b c)
qed

lemma percentage_49_80: "percentage 49 80 = 4313604018090803 / 70368744177664"
proof -
  have a: "to_double (49/80) = 2758454771764429 / 4503599627370496"
    using to_double_eval [of "-1" "49/80"] by (simp add: pow2_def round_half_even_def)
  have b: "to_double (2758454771764429 / 4503599627370496 * 100) = 8620171161763841 / 140737488355328"
    using to_double_eval [of 5 "2758454771764429 / 4503599627370496 * 100"]
    by (simp add: pow2_def round_half_even_def)
  have c: "py_round1 (8620171161763841 / 140737488355328) = 4313604018090803 / 70368744177664"
    using to_double_eval [of 5 "613 / 10"] by (simp add: py_round1_def pow2_def round_half_even_def)
  have "percentage 49 80 = py_round1 (to_double (to_double (49/80) * 100))"
    unfolding percentage_def by simp
  then show ?thesis by (simp only: a b c)
qed

lemma percentage_tenths:
  assumes "c \<le> t" "0 < t"
  shows "\<exists>k::int. percentage c t = to_double (of_int k / 10)
           \<and> \<bar>of_int k - 1000 * (real c / real t)\<bar> \<le> 1/2 + 1010 / 2 ^ 46
           \<and> \<bar>percentage c t - of_int k / 10\<bar> \<le> 1 / 2 ^ 46"
proof -
  define r where "r = real c / real t"
  define q where "q = to_double r"
  define m where "m = to_double (q * 100)"
  define k where "k = round_half_even (m * 10)"
  have r0: "0 \<le> r" and r1: "r \<le> 1" using assms by (simp_all add: r_def)
  have eq: "\<bar>q - r\<bar> \<le> 1 / 2 ^ 46"
    unfolding q_def using r0 r1 by (intro to_double_error) simp
  then have "\<bar>q * 100\<bar> \<le> 128" using r0 r1 by (simp add: abs_if split: if_splits)
  then have em: "\<bar>m - q * 100\<bar> \<le> 1 / 2 ^ 46"
    unfolding m_def by (rule to_double_error)
  have ek: "\<bar>of_int k - m * 10\<bar> \<le> 1/2"
    unfolding k_def by (rule round_half_even_error)
  have "\<bar>real_of_int k / 10\<bar> \<le> 128"
    using ek em eq r0 r1 by (simp add: abs_if split: if_splits)
  then have ep: "\<bar>to_double (of_int k / 10) - of_int k / 10\<bar> \<le> 1 / 2 ^ 46"
    by (rule to_double_error)
  have p: "percentage c t = to_double (of_int k / 10)"
    by (simp add: percentage_def py_round1_def k_def m_def q_def r_def)
  have "\<bar>of_int k - 1000 * r\<bar> \<le> 1/2 + 1010 / 2 ^ 46"
    using ek em eq by (simp add: abs_if split: if_splits)
  then show ?thesis using p ep unfolding r_def by auto
qed

lemma label_count_total:
  "label_count Positive ps + label_count Neutral ps + label_count Negative ps = length ps"
proof (induction ps)
  case Nil
  then show ?case by (simp add: label_count_def)
next
  case (Cons p ps)
  then show ?case by (cases "sr_label (sentiment p)") (simp_all add: label_count_def)
qed

lemma tenths_sum:
  fixes ka kb kc :: int and x y z e :: real
  assumes "\<bar>of_int ka - x\<bar> \<le> 1/2 + e" "\<bar>of_int kb - y\<bar> \<le> 1/2 + e"
    "\<bar>of_int kc - z\<bar> \<le> 1/2 + e" "x + y + z = 1000" "e \<le> 1/100"
  shows "\<bar>ka + kb + kc - 1000\<bar> \<le> 1"
proof -
  have "\<bar>real_of_int ka + real_of_int kb + real_of_int kc - 1000\<bar> < 2" using assms by linarith
  then have "\<bar>real_of_int (ka + kb + kc - 1000)\<bar> < 2" by simp
  then have "\<bar>ka + kb + kc - 1000\<bar> < 2" by linarith
  then show ?thesis by simp
qed

lemma doubles_sum:
  fixes pa pb pc ka kb kc e :: real
  assumes "\<bar>pa - ka / 10\<bar> \<le> e" "\<bar>pb - kb / 10\<bar> \<le> e" "\<bar>pc - kc / 10\<bar> \<le> e"
    "\<bar>ka + kb + kc - 1000\<bar> \<le> 1"
  shows "\<bar>pa + pb + pc - 100\<bar> \<le> 1/10 + 3 * e"
  using assms by linarith

lemma shares_sum:
  fixes a b c n :: real
  assumes "0 < n" "a + b + c = n"
  shows "1000 * (a / n) + 1000 * (b / n) + 1000 * (c / n) = 1000"
proof -
  have "a / n + b / n + c / n = (a + b + c) / n" by (simp add: add_divide_distrib)
  also have "\<dots> = 1" using assms by simp
  finally have "a / n + b / n + c / n = 1" .
  then show ?thesis by linarith
qed

lemma three_percentages:
  assumes n: "0 < n" and tot: "a + b + c = n"
  shows "\<exists>ka kb kc :: int.
           percentage a n = to_double (of_int ka / 10) \<and> percentage b n = to_double (of_int kb / 10)
           \<and> percentage c n = to_double (of_int kc / 10) \<and> \<bar>ka + kb + kc - 1000\<bar> \<le> 1
           \<and> \<bar>percentage a n + percentage b n + percentage c n - 100\<bar> \<le> 1/10 + 3 / 2 ^ 46"
proof -
  have le: "a \<le> n" "b \<le> n" "c \<le> n" using tot by simp_all
  from percentage_tenths [OF le(1) n] obtain ka :: int where ka: "percentage a n = to_double (of_int ka / 10)"
      "\<bar>of_int ka - 1000 * (real a / real n)\<bar> \<le> 1/2 + 1010 / 2 ^ 46"
      "\<bar>percentage a n - of_int ka / 10\<bar> \<le> 1 / 2 ^ 46"
    by blast
  from percentage_tenths [OF le(2) n] obtain kb :: int where kb: "percentage b n = to_double (of_int kb / 10)"
      "\<bar>of_int kb - 1000 * (real b / real n)\<bar> \<le> 1/2 + 1010 / 2 ^ 46"
      "\<bar>percentage b n - of_int kb / 10\<bar> \<le> 1 / 2 ^ 46"
    by blast
  from percentage_tenths [OF le(3) n] obtain kc :: int where kc: "percentage c n = to_double (of_int kc / 10)"
      "\<bar>of_int kc - 1000 * (real c / real n)\<bar> \<le> 1/2 + 1010 / 2 ^ 46"
      "\<bar>percentage c n - of_int kc / 10\<bar> \<le> 1 / 2 ^ 46"
    by blast
  have rn: "0 < real n" using n by simp
  have rt: "real a + real b + real c = real n" using tot by linarith
  have small: "(1010::real) / 2 ^ 46 \<le> 1/100" by simp
  have k: "\<bar>ka + kb + kc - 1000\<bar> \<le> 1"
    by (rule tenths_sum [OF ka(2) kb(2) kc(2) shares_sum [OF rn rt] small])
  then have "\<bar>real_of_int (ka + kb + kc - 1000)\<bar> \<le> 1" by linarith
  then have kr: "\<bar>real_of_int ka + real_of_int kb + real_of_int kc - 1000\<bar> \<le> 1" by simp
  have "\<bar>percentage a n + percentage b n + percentage c n - 100\<bar> \<le> 1/10 + 3 * (1 / 2 ^ 46)"
    by (rule doubles_sum [OF ka(3) kb(3) kc(3) kr])
  then have "\<bar>percentage a n + percentage b n + percentage c n - 100\<bar> \<le> 1/10 + 3 / 2 ^ 46" by simp
  then show ?thesis using ka(1) kb(1) kc(1) k by blast
qed

lemma distribution_of_three:
  "calculate_sentiment_distribution
     [analyzed ''Love this camera'' 5 1 Positive, analyzed ''Terrible battery'' 2 7 Negative,
      analyzed ''Just unboxed my new phone'' 1 0 Neutral]
   = \<lparr> dist_positive = 2343279181116211 / 70368744177664,
       dist_neutral = 2343279181116211 / 70368744177664,
       dist_negative = 2343279181116211 / 70368744177664 \<rparr>"
proof -
  have "calculate_sentiment_distribution
     [analyzed ''Love this camera'' 5 1 Positive, analyzed ''Terrible battery'' 2 7 Negative,
      analyzed ''Just unboxed my new phone'' 1 0 Neutral]
   = \<lparr> dist_positive = percentage 1 3, dist_neutral = percentage 1 3, dist_negative = percentage 1 3 \<rparr>"
    by (simp add: calculate_sentiment_distribution_def label_count_def analyzed_def eval_nat_numeral)
  then show ?thesis by (simp only: percentage_1_3)
qed

text \<open>
  C10, as the specification states it, fails: for three documents, one of each label,
  each percentage is the double nearest to 33.3, which lies below 33.3, and the sum of the
  three is more than 0.1 below 100.
\<close>

theorem sentiment_distribution_sum_misses_100:
  "dist_positive (calculate_sentiment_distribution
      [analyzed ''Love this camera'' 5 1 Positive, analyzed ''Terrible battery'' 2 7 Negative,
       analyzed ''Just unboxed my new phone'' 1 0 Neutral]) = 2343279181116211 / 70368744177664
   \<and> dist_neutral (calculate_sentiment_distribution
      [analyzed ''Love this camera'' 5 1 Positive, analyzed ''Terrible battery'' 2 7 Negative,
       analyzed ''Just unboxed my new phone'' 1 0 Neutral]) = 2343279181116211 / 70368744177664
   \<and> dist_negative (calculate_sentiment_distribution
      [analyzed ''Love this camera'' 5 1 Positive, analyzed ''Terrible battery'' 2 7 Negative,
       analyzed ''Just unboxed my new phone'' 1 0 Neutral]) = 2343279181116211 / 70368744177664
   \<and> \<not> \<bar>dist_positive (calculate_sentiment_distribution
        [analyzed ''Love this camera'' 5 1 Positive, analyzed ''Terrible battery'' 2 7 Negative,
         analyzed ''Just unboxed my new phone'' 1 0 Neutral])
      + dist_neutral (calculate_sentiment_distribution
        [analyzed ''Love this camera'' 5 1 Positive, analyzed ''Terrible battery'' 2 7 Negative,
         analyzed ''Just unboxed my new phone'' 1 0 Neutral])
      + dist_negative (calculate_sentiment_distribution
        [analyzed ''Love this camera'' 5 1 Positive, analyzed ''Terrible battery'' 2 7 Negative,
         analyzed ''Just unboxed my new phone'' 1 0 Neutral]) - 100\<bar> \<le> 1/10"
  by (simp add: distribution_of_three)

text \<open>
  C10, amended. For every non-empty batch of analyzed documents, each of the three
  percentages is the double nearest to a whole number of tenths; the three numbers of
  tenths sum to 1000 within 1, that is, the decimals sum to 100 within 0.1; and the sum of
  the three doubles themselves is within 0.1 + 3 / 2^46 of 100. For the empty batch all
  three percentages are zero.
\<close>

theorem sentiment_distribution_tenths_sum_to_100:
  "(analyzed_posts \<noteq> [] \<longrightarrow>
      (\<exists>kp kn kg :: int.
          dist_positive (calculate_sentiment_distribution analyzed_posts) = to_double (of_int kp / 10)
        \<and> dist_neutral (calculate_sentiment_distribution analyzed_posts) = to_double (of_int kn / 10)
        \<and> dist_negative (calculate_sentiment_distribution analyzed_posts) = to_double (of_int kg / 10)
        \<and> \<bar>kp + kn + kg - 1000\<bar> \<le> 1
        \<and> \<bar>dist_positive (calculate_sentiment_distribution analyzed_posts)
            + dist_neutral (calculate_sentiment_distribution analyzed_posts)
            + dist_negative (calculate_sentiment_distribution analyzed_posts) - 100\<bar> \<le> 1/10 + 3 / 2 ^ 46))
   \<and> (analyzed_posts = [] \<longrightarrow>
      calculate_sentiment_distribution analyzed_posts
        = \<lparr> dist_positive = 0, dist_neutral = 0, dist_negative = 0 \<rparr>)"
proof (cases "analyzed_posts = []")
  case True
  then show ?thesis by (simp add: calculate_sentiment_distribution_def)
next
  case False
  then have n: "0 < length analyzed_posts" by simp
  show ?thesis
    using False three_percentages [OF n label_count_total [of analyzed_posts]]
    by (simp add: calculate_sentiment_distribution_def)
qed

theorem sentiment_distribution_tenths_sum_to_100_witness:
  "[analyzed ''Love this camera'' 5 1 Positive, analyzed ''Terrible battery'' 2 7 Negative,
    analyzed ''Just unboxed my new phone'' 1 0 Neutral] \<noteq> []
   \<and> (\<exists>kp kn kg :: int.
          dist_positive (calculate_sentiment_distribution
            [analyzed ''Love this camera'' 5 1 Positive, analyzed ''Terrible battery'' 2 7 Negative,
             analyzed ''Just unboxed my new phone'' 1 0 Neutral]) = to_double (of_int kp / 10)
        \<and> dist_neutral (calculate_sentiment_distribution
            [analyzed ''Love this camera'' 5 1 Positive, analyzed ''Terrible battery'' 2 7 Negative,
             analyzed ''Just unboxed my new phone'' 1 0 Neutral]) = to_double (of_int kn / 10)
        \<and> dist_negative (calculate_sentiment_distribution
            [analyzed ''Love this camera'' 5 1 Positive, analyzed ''Terrible battery'' 2 7 Negative,
             analyzed ''Just unboxed my new phone'' 1 0 Neutral]) = to_double (of_int kg / 10)
        \<and> \<bar>kp + kn + kg - 1000\<bar> \<le> 1)
   \<and> to_double (333 / 10) = 2343279181116211 / 70368744177664
   \<and> \<bar>2343279181116211 / 70368744177664 + 2343279181116211 / 70368744177664
        + 2343279181116211 / 70368744177664 - (100::real)\<bar> \<le> 1/10 + 3 / 2 ^ 46
   \<and> calculate_sentiment_distribution [] = \<lparr> dist_positive = 0, dist_neutral = 0, dist_negative = 0 \<rparr>"
proof -
  have t: "to_double (333 / 10) = 2343279181116211 / 70368744177664"
    using to_double_eval [of 5 "333 / 10"] by (simp add: pow2_def round_half_even_def)
  have ne: "[analyzed ''Love this camera'' 5 1 Positive, analyzed ''Terrible battery'' 2 7 Negative,
    analyzed ''Just unboxed my new phone'' 1 0 Neutral] \<noteq> []" by simp
  have e: "calculate_sentiment_distribution [] = \<lparr> dist_positive = 0, dist_neutral = 0, dist_negative = 0 \<rparr>"
    using sentiment_distribution_tenths_sum_to_100 [of "[]"] by simp
  have b: "\<bar>2343279181116211 / 70368744177664 + 2343279181116211 / 70368744177664
        + 2343279181116211 / 70368744177664 - (100::real)\<bar> \<le> 1/10 + 3 / 2 ^ 46"
    using sentiment_distribution_tenths_sum_to_100 [of
      "[analyzed ''Love this camera'' 5 1 Positive, analyzed ''Terrible battery'' 2 7 Negative,
        analyzed ''Just unboxed my new phone'' 1 0 Neutral]"]
    by (simp add: distribution_of_three)
  show ?thesis
    using ne t e b sentiment_distribution_tenths_sum_to_100 [of
      "[analyzed ''Love this camera'' 5 1 Positive, analyzed ''Terrible battery'' 2 7 Negative,
        analyzed ''Just unboxed my new phone'' 1 0 Neutral]"]
    by blast
qed

section \<open>The blend of the ensemble strategy\<close>

text \<open>With a VADER compound score of -0.25 and a TextBlob polarity of 0.25 the blend in
  doubles is just above the negative threshold, and the label is neutral, as in CPython.\<close>

lemma blend_of_quarters:
  "analyze_sentiment_ml
     \<lparr> use_ml_models = True, vader_analyzer = Some (\<lambda>t. - (1/4)), textblob = Some (\<lambda>t. Some (1/4)) \<rparr>
     R text
   = \<lparr> sr_label = Neutral, sr_score = 900719925474099 / 18014398509481984,
       raw_score = - (900719925474099 / 18014398509481984) \<rparr>"
proof -
  have c6: "to_double (6/10) = 5404319552844595 / 9007199254740992"
    using to_double_eval [of "-1" "6/10"] by (simp add: pow2_def round_half_even_def)
  have c4: "to_double (4/10) = 3602879701896397 / 9007199254740992"
    using to_double_eval [of "-2" "4/10"] by (simp add: pow2_def round_half_even_def)
  have c5: "to_double (5/100) = 3602879701896397 / 72057594037927936"
    using to_double_eval [of "-5" "5/100"] by (simp add: pow2_def round_half_even_def)
  have a: "to_double (- (1/4) * (5404319552844595 / 9007199254740992)) = - (5404319552844595 / 36028797018963968)"
    using to_double_eval [of "-3" "- (1/4) * (5404319552844595 / 9007199254740992)"]
    by (simp add: pow2_def round_half_even_def)
  have b: "to_double (1/4 * (3602879701896397 / 9007199254740992)) = 3602879701896397 / 36028797018963968"
    using to_double_eval [of "-4" "1/4 * (3602879701896397 / 9007199254740992)"]
    by (simp add: pow2_def round_half_even_def)
  have s: "to_double (- (5404319552844595 / 36028797018963968) + 3602879701896397 / 36028797018963968)
             = - (900719925474099 / 18014398509481984)"
    using to_double_eval [of "-5" "- (5404319552844595 / 36028797018963968) + 3602879701896397 / 36028797018963968"]
    by (simp add: pow2_def round_half_even_def)
  have blend: "to_double (to_double (- (1/4) * to_double (6/10)) + to_double (1/4 * to_double (4/10)))
                 = - (900719925474099 / 18014398509481984)"
    by (simp only: c6 c4 a b s)
  have cls: "classify_compound (- (900719925474099 / 18014398509481984)) = Neutral"
    unfolding classify_compound_def by (simp only: c5) simp
  show ?thesis
    unfolding analyze_sentiment_ml_def by (simp only: NLPAnalyzer.simps option.case Let_def blend cls) simp
qed

section \<open>High-impact ranking\<close>

text \<open>
  C8. For every list of analyzed documents and every \<open>top_n\<close>, the high-impact ranking
  returns the leading documents of the list ordered by \<open>impact_score\<close> descending, where
  documents of equal \<open>impact_score\<close> keep their input order: the ranked list is a
  permutation of the input, descending, and its documents of any one score are in the
  order of the input. The result is its first \<open>top_n\<close> entries (and, as a Python slice
  does, all but the last \<open>- top_n\<close> when \<open>top_n\<close> is negative).
\<close>

theorem high_impact_ranking:
  "\<exists>zs. mset zs = mset analyzed_posts
      \<and> sorted_wrt (\<lambda>a b. impact_score b \<le> impact_score a) zs
      \<and> (\<forall>v. filter (\<lambda>p. impact_score p = v) zs = filter (\<lambda>p. impact_score p = v) analyzed_posts)
      \<and> get_high_impact_issues analyzed_posts top_n
          = map issue_of (if 0 \<le> top_n then take (nat top_n) zs else take (length zs - nat (- top_n)) zs)"
proof -
  let ?zs = "sorted_reverse impact_score analyzed_posts"
  have "mset ?zs = mset analyzed_posts" by (rule sorted_reverse_mset)
  moreover have "sorted_wrt (\<lambda>a b. impact_score b \<le> impact_score a) ?zs" by (rule sorted_reverse_desc)
  moreover have "\<forall>v. filter (\<lambda>p. impact_score p = v) ?zs = filter (\<lambda>p. impact_score p = v) analyzed_posts"
    by (simp add: sorted_reverse_stable)
  moreover have "get_high_impact_issues analyzed_posts top_n
          = map issue_of (if 0 \<le> top_n then take (nat top_n) ?zs else take (length ?zs - nat (- top_n)) ?zs)"
    by (simp add: get_high_impact_issues_def py_prefix_def)
  ultimately show ?thesis by blast
qed

section \<open>Theme extraction\<close>

lemma theme_names_distinct: "distinct (map fst THEME_KEYWORDS)"
  by (simp add: THEME_KEYWORDS_def)

lemma theme_counts_step:
  "theme_counts (theme_step text post tk st)
     = (theme_counts st)(fst tk := theme_counts st (fst tk) + keyword_matches (snd tk) text)"
  by (auto simp: theme_step_def)

lemma theme_counts_fold_themes:
  "distinct (map fst tks) \<Longrightarrow>
   theme_counts (fold (theme_step text post) tks st) name
     = theme_counts st name + (case map_of tks name of None \<Rightarrow> 0 | Some kws \<Rightarrow> keyword_matches kws text)"
proof (induction tks arbitrary: st)
  case Nil
  then show ?case by simp
next
  case (Cons tk tks)
  obtain n kws where tk: "tk = (n, kws)" by (cases tk)
  from Cons.prems have d: "distinct (map fst tks)" and nin: "n \<notin> fst ` set tks"
    by (simp_all add: tk)
  have none: "map_of tks n = None" using nin by (simp add: map_of_eq_None_iff)
  show ?case
    using Cons.IH [OF d, of "theme_step text post tk st"] none
    by (simp add: theme_counts_step tk)
qed

lemma theme_counts_post_step:
  "theme_counts (post_step R p st) name = theme_counts st name + theme_hits R name p"
  unfolding post_step_def theme_hits_def
  by (rule theme_counts_fold_themes [OF theme_names_distinct])

lemma theme_counts_fold_posts:
  "theme_counts (fold (post_step R) ps st) name = theme_counts st name + sum_list (map (theme_hits R name) ps)"
  by (induction ps arbitrary: st) (simp_all add: theme_counts_post_step)

lemma theme_counts_loop:
  "theme_counts (theme_loop R ps) name = sum_list (map (theme_hits R name) ps)"
  by (simp add: theme_loop_def theme_counts_fold_posts theme_init_def)

lemma extract_themes_member:
  assumes "t \<in> set (extract_themes R ps)"
  shows "theme_name t \<in> set (map fst THEME_KEYWORDS)
         \<and> theme_count t = theme_counts (theme_loop R ps) (theme_name t)
         \<and> 0 < theme_count t"
proof -
  from assms have "t \<in> set (take 6 (sorted_reverse (\<lambda>t. int (theme_count t)) (theme_results (theme_loop R ps))))"
    by (simp add: extract_themes_def)
  then have "t \<in> set (sorted_reverse (\<lambda>t. int (theme_count t)) (theme_results (theme_loop R ps)))"
    by (rule in_set_takeD)
  then have "t \<in> set (theme_results (theme_loop R ps))"
    by (simp add: set_sorted_reverse)
  then obtain name where n: "name \<in> set (map fst THEME_KEYWORDS)" "0 < theme_counts (theme_loop R ps) name"
    and t: "t = build_theme (theme_loop R ps) name"
    unfolding theme_results_def by auto
  show ?thesis using n by (simp add: t build_theme_def)
qed

lemma filter_take_subseq: "subseq (filter P (take n xs)) (filter P xs)"
proof -
  have "subseq (take n xs) xs" by (metis append_take_drop_id prefix_def prefix_imp_subseq)
  then show ?thesis by (rule subseq_filter)
qed

lemma names_of_results:
  "map theme_name (filter P (theme_results st))
     = filter (\<lambda>n. P (build_theme st n)) (filter (\<lambda>name. theme_counts st name > 0) (map fst THEME_KEYWORDS))"
  by (simp add: theme_results_def filter_map comp_def build_theme_def)

text \<open>
  C5, as the specification states it, fails: for one document titled
  ``Battery battery camera'' the keyword \<open>battery\<close> occurs twice, so the occurrences of
  the keywords of ``Battery & Power'' number 2, but the mention count of the theme is 1.
\<close>

theorem mention_count_not_occurrences:
  "extract_themes ascii_db [analyzed ''Battery battery camera'' 1 0 Neutral]
     = [\<lparr> theme_name = ''Battery & Power'', theme_count = 1, theme_mood = MoodMixed,
           theme_examples_of = [u ''Battery battery camera''] \<rparr>,
        \<lparr> theme_name = ''Camera & Photography'', theme_count = 1, theme_mood = MoodMixed,
           theme_examples_of = [u ''Battery battery camera''] \<rparr>]
   \<and> spec_mention_count ascii_db
        [''battery'', ''charge'', ''charging'', ''drain'', ''power'', ''sot'',
         ''fast charging'', ''wireless charging'', ''dead'', ''percentage'']
        [analyzed ''Battery battery camera'' 1 0 Neutral] = 2"
  using themes_of_battery_post
  by (simp add: spec_mention_count_def theme_text_def analyzed_def ascii_db_def ascii_lower_char_def u_def)

text \<open>
  C5, amended. For every batch of analyzed documents, the mention count of each returned
  theme is the number of the theme's keywords that occur at least once as a substring of
  the lower-cased ``title body'' text of a document, summed over all documents: a keyword
  counts at most once per document, however often it occurs there. Comments take no part.
\<close>

theorem mention_count_counts_keywords_present:
  assumes "t \<in> set (extract_themes R analyzed_posts)"
  shows "\<exists>keywords. (theme_name t, keywords) \<in> set THEME_KEYWORDS
           \<and> theme_count t =
               sum_list (map (\<lambda>p. length (filter (\<lambda>kw. str_contains (u kw) (db_lower R (title p @ u '' '' @ body p))) keywords))
                             analyzed_posts)"
proof -
  from extract_themes_member [OF assms]
  have mem: "theme_name t \<in> set (map fst THEME_KEYWORDS)"
    and cnt: "theme_count t = theme_counts (theme_loop R analyzed_posts) (theme_name t)" by simp_all
  from mem obtain kws where kws: "(theme_name t, kws) \<in> set THEME_KEYWORDS" by auto
  then have m: "map_of THEME_KEYWORDS (theme_name t) = Some kws"
    using theme_names_distinct by simp
  have "theme_count t = sum_list (map (theme_hits R (theme_name t)) analyzed_posts)"
    using cnt by (simp add: theme_counts_loop)
  also have "\<dots> = sum_list (map (\<lambda>p. length (filter (\<lambda>kw. str_contains (u kw) (db_lower R (title p @ u '' '' @ body p))) kws)) analyzed_posts)"
  proof -
    have "theme_hits R (theme_name t) = (\<lambda>p. length (filter (\<lambda>kw. str_contains (u kw) (db_lower R (title p @ u '' '' @ body p))) kws))"
      by (rule ext) (simp add: theme_hits_def m keyword_matches_def theme_text_def)
    then show ?thesis by simp
  qed
  finally show ?thesis using kws by blast
qed

theorem mention_count_counts_keywords_present_witness:
  "\<lparr> theme_name = ''Battery & Power'', theme_count = 1, theme_mood = MoodMixed,
      theme_examples_of = [u ''Battery battery camera''] \<rparr>
     \<in> set (extract_themes ascii_db [analyzed ''Battery battery camera'' 1 0 Neutral])
   \<and> (\<exists>keywords. (''Battery & Power'', keywords) \<in> set THEME_KEYWORDS
         \<and> 1 = sum_list (map (\<lambda>p. length (filter (\<lambda>kw. str_contains (u kw) (db_lower ascii_db (title p @ u '' '' @ body p))) keywords))
                             [analyzed ''Battery battery camera'' 1 0 Neutral]))"
  using mention_count_counts_keywords_present [of
      "\<lparr> theme_name = ''Battery & Power'', theme_count = 1, theme_mood = MoodMixed,
          theme_examples_of = [u ''Battery battery camera''] \<rparr>"
      ascii_db "[analyzed ''Battery battery camera'' 1 0 Neutral]"]
  by (simp add: themes_of_battery_post)

text \<open>
  C9. For every batch of analyzed documents, \<open>extract_themes\<close> returns at most 6 themes,
  each with a mention count above zero, sorted by mention count descending; themes of
  equal count are in the order of the taxonomy (whose names are distinct).
\<close>

theorem extract_themes_top6_sorted:
  "length (extract_themes R analyzed_posts) \<le> 6
   \<and> (\<forall>t \<in> set (extract_themes R analyzed_posts). 0 < theme_count t)
   \<and> sorted_wrt (\<lambda>a b. theme_count b \<le> theme_count a) (extract_themes R analyzed_posts)
   \<and> distinct (map fst THEME_KEYWORDS)
   \<and> (\<forall>k. subseq (map theme_name (filter (\<lambda>t. theme_count t = k) (extract_themes R analyzed_posts)))
                  (map fst THEME_KEYWORDS))"
proof -
  let ?st = "theme_loop R analyzed_posts"
  let ?zs = "sorted_reverse (\<lambda>t. int (theme_count t)) (theme_results ?st)"
  have len: "length (extract_themes R analyzed_posts) \<le> 6"
    by (simp add: extract_themes_def)
  have pos: "\<forall>t \<in> set (extract_themes R analyzed_posts). 0 < theme_count t"
    using extract_themes_member by blast
  have "sorted_wrt (\<lambda>a b. int (theme_count b) \<le> int (theme_count a)) ?zs"
    by (rule sorted_reverse_desc)
  then have "sorted_wrt (\<lambda>a b. theme_count b \<le> theme_count a) (take 6 ?zs)"
    by (simp add: sorted_wrt_take)
  then have srt: "sorted_wrt (\<lambda>a b. theme_count b \<le> theme_count a) (extract_themes R analyzed_posts)"
    by (simp add: extract_themes_def)
  have ties: "subseq (map theme_name (filter (\<lambda>t. theme_count t = k) (extract_themes R analyzed_posts)))
                  (map fst THEME_KEYWORDS)" for k
  proof -
    have "subseq (filter (\<lambda>t. theme_count t = k) (take 6 ?zs)) (filter (\<lambda>t. theme_count t = k) ?zs)"
      by (rule filter_take_subseq)
    moreover have "filter (\<lambda>t. theme_count t = k) ?zs = filter (\<lambda>t. theme_count t = k) (theme_results ?st)"
      using sorted_reverse_stable [of "\<lambda>t. int (theme_count t)" "int k" "theme_results ?st"] by simp
    ultimately have "subseq (map theme_name (filter (\<lambda>t. theme_count t = k) (take 6 ?zs)))
                            (map theme_name (filter (\<lambda>t. theme_count t = k) (theme_results ?st)))"
      by (simp add: subseq_map)
    moreover have "subseq (map theme_name (filter (\<lambda>t. theme_count t = k) (theme_results ?st))) (map fst THEME_KEYWORDS)"
      unfolding names_of_results by (meson subseq_filter_left subseq_order.order_trans)
    ultimately show ?thesis
      unfolding extract_themes_def by (rule subseq_order.order_trans)
  qed
  show ?thesis using len pos srt theme_names_distinct ties by blast
qed

theorem extract_themes_top6_sorted_witness:
  "map theme_name (extract_themes ascii_db [analyzed ''Battery battery camera'' 1 0 Neutral])
     = [''Battery & Power'', ''Camera & Photography'']
   \<and> length (extract_themes ascii_db [analyzed ''Battery battery camera'' 1 0 Neutral]) \<le> 6
   \<and> 0 < theme_count (extract_themes ascii_db [analyzed ''Battery battery camera'' 1 0 Neutral] ! 1)
   \<and> subseq (map theme_name (filter (\<lambda>t. theme_count t = 1)
               (extract_themes ascii_db [analyzed ''Battery battery camera'' 1 0 Neutral])))
            (map fst THEME_KEYWORDS)"
proof -
  have names: "map theme_name (extract_themes ascii_db [analyzed ''Battery battery camera'' 1 0 Neutral])
     = [''Battery & Power'', ''Camera & Photography'']"
    by (simp add: themes_of_battery_post)
  have mem: "extract_themes ascii_db [analyzed ''Battery battery camera'' 1 0 Neutral] ! 1
     \<in> set (extract_themes ascii_db [analyzed ''Battery battery camera'' 1 0 Neutral])"
    by (simp add: themes_of_battery_post)
  show ?thesis
    using names mem extract_themes_top6_sorted [of ascii_db "[analyzed ''Battery battery camera'' 1 0 Neutral]"]
    by blast
qed

section \<open>The cap on the comments\<close>

lemma fold_comment_step:
  "fold (comment_step R) cs (texts, tot, cnt)
     = (texts @ first_fit MAX_COMMENTS_LENGTH tot (map (\<lambda>c. clean_text R (comment_body c)) cs),
        tot + sum_list (map length (first_fit MAX_COMMENTS_LENGTH tot (map (\<lambda>c. clean_text R (comment_body c)) cs))),
        cnt + length (first_fit MAX_COMMENTS_LENGTH tot (map (\<lambda>c. clean_text R (comment_body c)) cs)))"
  by (induction cs arbitrary: texts tot cnt) (simp_all add: comment_step_def Let_def)

lemma first_fit_below_cap:
  "used < cap \<Longrightarrow> used + sum_list (map length (first_fit cap used xs)) < cap"
proof (induction xs arbitrary: used)
  case Nil
  then show ?case by simp
next
  case (Cons x xs)
  show ?case
  proof (cases "x \<noteq> [] \<and> used + length x < cap")
    case True
    then have "used + length x + sum_list (map length (first_fit cap (used + length x) xs)) < cap"
      using Cons.IH [of "used + length x"] by simp
    with True show ?thesis by (simp add: add.assoc)
  next
    case False
    then show ?thesis using Cons.IH [OF Cons.prems] by auto
  qed
qed

lemma first_fit_subseq: "subseq (first_fit cap used xs) xs"
  by (induction xs arbitrary: used) auto

lemma length_py_join:
  "length (py_join sep xs) = sum_list (map length xs) + length sep * (length xs - 1)"
  by (induction sep xs rule: py_join.induct) simp_all

lemma cleaned_comments_process_post:
  "cleaned_comments (process_post R post)
     = py_join (u '' | '') (first_fit MAX_COMMENTS_LENGTH 0 (map (\<lambda>c. clean_text R (comment_body c)) (post_comments post)))"
  by (simp add: process_post_def comment_loop_def fold_comment_step Let_def)

lemma comment_count_process_post:
  "comment_count (process_post R post)
     = length (first_fit MAX_COMMENTS_LENGTH 0 (map (\<lambda>c. clean_text R (comment_body c)) (post_comments post)))"
  by (simp add: process_post_def comment_loop_def fold_comment_step Let_def)

text \<open>A text of \<open>n\<close> letters a goes through \<open>clean_text\<close> unchanged: no pattern can start
  a match at that letter.\<close>

lemma re_sub_from_plain:
  assumes "\<And>prev cs. rmatch (is_word R) r prev (97 # cs) = []"
    and "\<And>prev. rmatch (is_word R) r prev [] = []"
  shows "re_sub_from R r repl prev 0 (replicate n 97) = replicate n 97"
  by (induction n arbitrary: prev) (simp_all add: match_len_def assms)

lemmas pattern_defs = URL_PATTERN_def MARKDOWN_PATTERN_def HTML_ENTITIES_def EMOJI_PATTERN_def
  Str_def StrI_def Lit_def LitI_def Plus_def Opt_def ci_def az_ignorecase_def emoji_def markdown_char_def
  is_space_def

lemma remove_urls_plain: "remove_urls R (replicate n 97) = replicate n 97"
  unfolding remove_urls_def re_sub_def by (rule re_sub_from_plain) (simp_all add: pattern_defs)

lemma remove_markdown_plain: "remove_markdown R (replicate n 97) = replicate n 97"
  unfolding remove_markdown_def re_sub_def by (rule re_sub_from_plain) (simp_all add: pattern_defs)

lemma remove_entities_plain: "remove_entities R (replicate n 97) = replicate n 97"
  unfolding remove_entities_def re_sub_def by (rule re_sub_from_plain) (simp_all add: pattern_defs)

lemma remove_emoji_plain: "remove_emoji R (replicate n 97) = replicate n 97"
  unfolding remove_emoji_def re_sub_def by (rule re_sub_from_plain) (simp_all add: pattern_defs)

lemma noise_no_start:
  "\<forall>r \<in> set (REDDIT_NOISE R). rmatch w r prev (97 # cs) = [] \<and> rmatch w r prev [] = []"
  by (simp add: REDDIT_NOISE_def pattern_defs)

lemma fold_noise_plain:
  "set rs \<subseteq> set (REDDIT_NOISE R) \<Longrightarrow>
   fold (\<lambda>pattern cleaned. re_sub R pattern [] cleaned) rs (replicate n 97) = replicate n 97"
proof (induction rs)
  case Nil
  then show ?case by simp
next
  case (Cons r rs)
  then have r: "r \<in> set (REDDIT_NOISE R)" and rs: "set rs \<subseteq> set (REDDIT_NOISE R)" by simp_all
  have a: "\<And>prev cs. rmatch (is_word R) r prev (97 # cs) = []"
    using noise_no_start r by blast
  have b: "\<And>prev. rmatch (is_word R) r prev [] = []"
    using noise_no_start r by blast
  have "re_sub R r [] (replicate n 97) = replicate n 97"
    unfolding re_sub_def by (rule re_sub_from_plain [OF a b])
  with Cons.IH [OF rs] show ?case by simp
qed

lemma remove_noise_plain: "remove_noise R (replicate n 97) = replicate n 97"
  unfolding remove_noise_def by (rule fold_noise_plain) simp

lemma strip_plain: "strip (replicate n 97) = replicate n 97"
  by (cases n) (simp_all add: strip_def is_space_def replicate_append_same)

lemma normalize_whitespace_plain: "normalize_whitespace R (replicate n 97) = replicate n 97"
proof -
  have "re_sub R (Plus is_space) (u '' '') (replicate n 97) = replicate n 97"
    unfolding re_sub_def by (rule re_sub_from_plain) (simp_all add: pattern_defs)
  then show ?thesis by (simp add: normalize_whitespace_def strip_plain)
qed

lemma clean_text_plain: "clean_text R (replicate n 97) = replicate n 97"
  by (simp add: clean_text_def remove_urls_plain remove_markdown_plain remove_entities_plain
      remove_emoji_plain remove_noise_plain normalize_whitespace_plain)

text \<open>
  C6, as the specification states it, fails: a post with two comments, of 999 and of 1000
  letters a, keeps both (999 + 1000 is below 2000), and the joined string, with its
  separator of three code points, has length 2002.
\<close>

theorem cleaned_comments_longer_than_cap:
  "length (cleaned_comments (process_post ascii_db
      (reddit_post (u ''Long thread'') [] [replicate 999 97, replicate 1000 97]))) = 2002"
  by (simp add: cleaned_comments_process_post reddit_post_def clean_text_plain MAX_COMMENTS_LENGTH_def u_def)

text \<open>
  C6, amended. For every input post, the cap of 2000 bounds the lengths of the cleaned
  comments that are kept, without the separators: their sum is below 2000, and
  \<open>cleaned_comments\<close> is that sum plus 3 for each separator. The comments are kept
  greedily, first-fit: in order, a non-empty cleaned comment is kept whole when the sum
  so far plus its length stays below 2000 and is dropped otherwise; no comment is trimmed.
\<close>

theorem comment_cap_counts_comment_text_only:
  "cleaned_comments (process_post R post)
     = py_join (u '' | '') (first_fit MAX_COMMENTS_LENGTH 0 (map (\<lambda>c. clean_text R (comment_body c)) (post_comments post)))
   \<and> comment_count (process_post R post)
     = length (first_fit MAX_COMMENTS_LENGTH 0 (map (\<lambda>c. clean_text R (comment_body c)) (post_comments post)))
   \<and> sum_list (map length (first_fit MAX_COMMENTS_LENGTH 0 (map (\<lambda>c. clean_text R (comment_body c)) (post_comments post)))) < 2000
   \<and> length (cleaned_comments (process_post R post))
     = sum_list (map length (first_fit MAX_COMMENTS_LENGTH 0 (map (\<lambda>c. clean_text R (comment_body c)) (post_comments post))))
       + 3 * (comment_count (process_post R post) - 1)
   \<and> subseq (first_fit MAX_COMMENTS_LENGTH 0 (map (\<lambda>c. clean_text R (comment_body c)) (post_comments post)))
            (map (\<lambda>c. clean_text R (comment_body c)) (post_comments post))"
proof -
  let ?kept = "first_fit MAX_COMMENTS_LENGTH 0 (map (\<lambda>c. clean_text R (comment_body c)) (post_comments post))"
  have "0 + sum_list (map length ?kept) < MAX_COMMENTS_LENGTH"
    by (rule first_fit_below_cap) (simp add: MAX_COMMENTS_LENGTH_def)
  then have b: "sum_list (map length ?kept) < 2000" by (simp add: MAX_COMMENTS_LENGTH_def)
  have l: "length (py_join (u '' | '') ?kept) = sum_list (map length ?kept) + 3 * (length ?kept - 1)"
    by (simp add: length_py_join u_def)
  show ?thesis
    using b l first_fit_subseq [of MAX_COMMENTS_LENGTH 0]
    by (simp add: cleaned_comments_process_post comment_count_process_post)
qed

section \<open>Generative augmentation and its fallback\<close>

lemma or_placeholder_nonempty: "or_placeholder xs msg \<noteq> []"
  by (simp add: or_placeholder_def u_def)

lemma empty_structure_not_baseline: "empty_structure \<noteq> baseline_insights analyzed_posts ths"
  using or_placeholder_nonempty
  by (simp add: empty_structure_def baseline_insights_def likes_of_def)

lemma truthy_empty_structure: "truthy empty_structure"
  by (simp add: empty_structure_def)

text \<open>
  C1 fails on the code. When the generative capability is configured and its answer holds
  no parseable bracketed structure (the empty answer among them),
  \<^verbatim>\<open>generate_deep_insights\<close> returns its structure of five empty lists; that dictionary
  is not empty, so the test \<^verbatim>\<open>if ai_insights:\<close> of \<^verbatim>\<open>generate_product_insights\<close> accepts
  it, and the result is the five empty lists instead of the deterministic baseline.
\<close>

theorem failed_parse_returns_empty_structure:
  "(case re_search R JSON_PATTERN (deep_insights_response a) of None \<Rightarrow> None | Some g \<Rightarrow> loads g) = None \<Longrightarrow>
     generate_product_insights R loads (Some a) analyzed_posts ths = empty_structure
     \<and> generate_product_insights R loads (Some a) analyzed_posts ths \<noteq> baseline_insights analyzed_posts ths"
proof -
  assume h: "(case re_search R JSON_PATTERN (deep_insights_response a) of None \<Rightarrow> None | Some g \<Rightarrow> loads g) = None"
  then have "generate_deep_insights R loads a = empty_structure"
    by (auto simp: generate_deep_insights_def split: option.splits)
  then have "generate_product_insights R loads (Some a) analyzed_posts ths = empty_structure"
    by (simp add: generate_product_insights_def truthy_empty_structure)
  then show ?thesis by (simp add: empty_structure_not_baseline)
qed

lemma search_empty: "re_search R JSON_PATTERN [] = None"
  by (simp add: re_search_def match_len_def JSON_PATTERN_def Lit_def)

theorem failed_parse_returns_empty_structure_witness:
  "(case re_search ascii_db JSON_PATTERN (deep_insights_response silent_ai) of None \<Rightarrow> None | Some g \<Rightarrow> Map.empty g) = None
   \<and> generate_product_insights ascii_db Map.empty (Some silent_ai) [analyzed ''Love this camera'' 5 1 Positive] []
       = JObj [(u ''likes'', JArr []), (u ''frustrations'', JArr []), (u ''improving'', JArr []),
               (u ''worsening'', JArr []), (u ''opportunities'', JArr [])]
   \<and> baseline_insights [analyzed ''Love this camera'' 5 1 Positive] []
       = JObj [(u ''likes'', JArr [JStr (u ''Love this camera'')]),
               (u ''frustrations'', JArr [JStr (u ''No significant frustrations detected'')]),
               (u ''worsening'', JArr [JStr (u ''No clear worsening trends detected'')]),
               (u ''improving'', JArr [JStr (u ''No clear improving trends detected'')]),
               (u ''opportunities'', JArr [JStr (u ''Increase sample size for better opportunity detection'')])]"
proof -
  have s: "(case re_search ascii_db JSON_PATTERN (deep_insights_response silent_ai) of None \<Rightarrow> None | Some g \<Rightarrow> Map.empty g) = None"
    by (simp add: silent_ai_def search_empty)
  have b: "baseline_insights [analyzed ''Love this camera'' 5 1 Positive] []
       = JObj [(u ''likes'', JArr [JStr (u ''Love this camera'')]),
               (u ''frustrations'', JArr [JStr (u ''No significant frustrations detected'')]),
               (u ''worsening'', JArr [JStr (u ''No clear worsening trends detected'')]),
               (u ''improving'', JArr [JStr (u ''No clear improving trends detected'')]),
               (u ''opportunities'', JArr [JStr (u ''Increase sample size for better opportunity detection'')])]"
    by (simp add: baseline_insights_def likes_of_def frustrations_of_def worsening_of_def improving_of_def
        or_placeholder_def analyzed_def sorted_reverse_def u_def)
  show ?thesis
    using s b failed_parse_returns_empty_structure [OF s, of "[analyzed ''Love this camera'' 5 1 Positive]" "[]"]
    by (simp add: empty_structure_def)
qed



section \<open>Cleaning\<close>

lemmas cl_defs = clean_text_def normalize_whitespace_def remove_noise_def remove_emoji_def remove_entities_def
  remove_markdown_def remove_urls_def re_sub_def match_len_def URL_PATTERN_def MARKDOWN_PATTERN_def
  HTML_ENTITIES_def EMOJI_PATTERN_def REDDIT_NOISE_def Str_def StrI_def Lit_def LitI_def Plus_def Opt_def
  u_def strip_def is_space_def non_space_def dot_def ci_def az_ignorecase_def emoji_def markdown_char_def
  word_at_def next_char_def is_word_def ascii_db_def

text \<open>No code point of the emoji ranges survives the cleaning: the emoji pass removes them all,
  and the later passes only delete code points or put in a space.\<close>

lemma star_results_nonempty: "star_results p prev s \<noteq> []"
  by (induction s arbitrary: prev) auto

lemma star_results_shorter: "st \<in> set (star_results p prev s) \<Longrightarrow> length (snd st) \<le> length s"
proof (induction s arbitrary: prev)
  case Nil
  then show ?case by simp
next
  case (Cons c cs)
  show ?case
  proof (cases "p c \<and> st \<in> set (star_results p (Some c) cs)")
    case True
    then have "length (snd st) \<le> length cs" using Cons.IH by blast
    then show ?thesis by simp
  next
    case False
    with Cons.prems have "st = (prev, c # cs)" by (auto split: if_splits)
    then show ?thesis by simp
  qed
qed

lemma match_len_plus:
  "match_len R (Plus p) prev (c # cs) = (if p c then Some (Suc (length cs) - length (snd (hd (star_results p (Some c) cs)))) else None)"
  using star_results_nonempty [of p "Some c" cs]
  by (cases "star_results p (Some c) cs") (simp_all add: match_len_def Plus_def)

lemma match_len_plus_pos:
  "match_len R (Plus p) prev (c # cs) = Some n \<Longrightarrow> p c \<and> 0 < n"
proof -
  assume h: "match_len R (Plus p) prev (c # cs) = Some n"
  have "hd (star_results p (Some c) cs) \<in> set (star_results p (Some c) cs)"
    using star_results_nonempty by simp
  then have "length (snd (hd (star_results p (Some c) cs))) \<le> length cs"
    by (rule star_results_shorter)
  then show ?thesis using h by (auto simp: match_len_plus split: if_splits)
qed

lemma match_len_plus_none:
  "match_len R (Plus p) prev (c # cs) = None \<Longrightarrow> \<not> p c"
  by (simp add: match_len_plus split: if_splits)

lemma match_len_plus_nil: "match_len R (Plus p) prev [] = None"
  by (simp add: match_len_def Plus_def)

lemma re_sub_plus_removes:
  "x \<in> set (re_sub_from R (Plus p) repl prev skip s) \<Longrightarrow> x \<in> set repl \<or> \<not> p x"
proof (induction s arbitrary: prev skip)
  case Nil
  then show ?case by (simp add: match_len_plus_nil)
next
  case (Cons c cs)
  show ?case
  proof (cases "0 < skip")
    case True
    with Cons show ?thesis by simp
  next
    case False
    show ?thesis
    proof (cases "match_len R (Plus p) prev (c # cs)")
      case None
      with False Cons match_len_plus_none [OF None] show ?thesis by auto
    next
      case (Some n)
      with match_len_plus_pos [OF Some] False Cons show ?thesis by auto
    qed
  qed
qed

lemma re_sub_from_subset:
  "set (re_sub_from R r repl prev skip s) \<subseteq> set s \<union> set repl"
proof (induction s arbitrary: prev skip)
  case Nil
  then show ?case by auto
next
  case (Cons c cs)
  show ?case
  proof (cases "0 < skip")
    case True
    then show ?thesis using Cons [of "Some c" "skip - 1"] by auto
  next
    case False
    show ?thesis
    proof (cases "match_len R r prev (c # cs)")
      case None
      then show ?thesis using False Cons [of "Some c" 0] by auto
    next
      case (Some n)
      then show ?thesis using False Cons [of "Some c" 0] Cons [of "Some c" "n - 1"] by auto
    qed
  qed
qed

lemma re_sub_subset: "set (re_sub R r repl s) \<subseteq> set s \<union> set repl"
  unfolding re_sub_def by (rule re_sub_from_subset)

lemma remove_emoji_no_emoji: "x \<in> set (remove_emoji R s) \<Longrightarrow> \<not> emoji x"
  using re_sub_plus_removes [of x R emoji "[]" None 0 s] by (simp add: remove_emoji_def re_sub_def EMOJI_PATTERN_def)

lemma fold_noise_subset:
  "set (fold (\<lambda>pattern cleaned. re_sub R pattern [] cleaned) rs s) \<subseteq> set s"
proof (induction rs arbitrary: s)
  case Nil
  then show ?case by simp
next
  case (Cons r rs)
  have "set (re_sub R r [] s) \<subseteq> set s" using re_sub_subset [of R r "[]" s] by simp
  with Cons [of "re_sub R r [] s"] show ?case by auto
qed

lemma strip_subset: "set (strip s) \<subseteq> set s"
proof -
  have "set (strip s) \<subseteq> set (dropWhile is_space s)"
    unfolding strip_def using set_dropWhileD by fastforce
  then show ?thesis using set_dropWhileD by fastforce
qed

lemma normalize_whitespace_subset: "set (normalize_whitespace R s) \<subseteq> set s \<union> {32}"
proof -
  have "set (re_sub R (Plus is_space) (u '' '') s) \<subseteq> set s \<union> {32}"
    using re_sub_subset [of R "Plus is_space" "u '' ''" s] by (simp add: u_def)
  then show ?thesis unfolding normalize_whitespace_def using strip_subset by blast
qed

lemma clean_text_no_emoji: "\<not> contains_emoji (clean_text R s)"
proof -
  have "\<not> emoji x" if x: "x \<in> set (clean_text R s)" for x
  proof (cases "s = []")
    case True
    with x show ?thesis by (simp add: clean_text_def)
  next
    case False
    let ?e = "remove_emoji R (remove_entities R (remove_markdown R (remove_urls R s)))"
    from x False have "x \<in> set (normalize_whitespace R (remove_noise R ?e))"
      by (simp add: clean_text_def)
    then have "x \<in> set (remove_noise R ?e) \<or> x = 32"
      using normalize_whitespace_subset by fastforce
    then have "x \<in> set ?e \<or> x = 32"
      unfolding remove_noise_def using fold_noise_subset by fastforce
    then show ?thesis using remove_emoji_no_emoji by (auto simp: emoji_def)
  qed
  then show ?thesis by (auto simp: contains_emoji_def list_ex_iff)
qed

lemma process_post_no_emoji:
  "\<not> contains_emoji (cleaned_title (process_post R post)) \<and> \<not> contains_emoji (cleaned_body (process_post R post))"
proof -
  let ?b = "clean_text R (selftext post)"
  have t: "cleaned_title (process_post R post) = clean_text R (post_title post)"
    by (simp add: process_post_def Let_def case_prod_beta)
  have b: "cleaned_body (process_post R post)
             = (if length ?b > MAX_BODY_LENGTH then take MAX_BODY_LENGTH ?b @ u ''...'' else ?b)"
    by (simp add: process_post_def Let_def case_prod_beta)
  have dots: "set (u ''...'') = {46}" by (simp add: u_def)
  have tk: "set (take MAX_BODY_LENGTH ?b) \<subseteq> set ?b" by (rule set_take_subset)
  have sub: "set (cleaned_body (process_post R post)) \<subseteq> set ?b \<union> {46}"
    unfolding b using dots tk by (cases "length ?b > MAX_BODY_LENGTH") auto
  have e: "\<forall>x \<in> set ?b. \<not> emoji x"
    using clean_text_no_emoji [of R "selftext post"] by (simp add: contains_emoji_def list_ex_iff)
  have "\<not> emoji 46" by (simp add: emoji_def)
  with e sub have "\<forall>x \<in> set (cleaned_body (process_post R post)). \<not> emoji x" by blast
  then have "\<not> contains_emoji (cleaned_body (process_post R post))"
    by (simp add: contains_emoji_def list_ex_iff)
  then show ?thesis using clean_text_no_emoji by (simp add: t)
qed

lemma clean_spliced_url:
  "clean_text ascii_db spliced_url = u ''http://example.com''"
proof -
  have 1: "remove_urls ascii_db spliced_url = spliced_url"
    by (simp add: spliced_url_def cl_defs)
  have 2: "remove_markdown ascii_db spliced_url = spliced_url"
    by (simp add: spliced_url_def cl_defs)
  have 3: "remove_entities ascii_db spliced_url = spliced_url"
    by (simp add: spliced_url_def cl_defs)
  have 4: "remove_emoji ascii_db spliced_url = u ''http://example.com''"
    by (simp add: spliced_url_def cl_defs)
  have 5: "remove_noise ascii_db (u ''http://example.com'') = u ''http://example.com''"
    by (simp add: cl_defs)
  have 6: "normalize_whitespace ascii_db (u ''http://example.com'') = u ''http://example.com''"
    by (simp add: cl_defs)
  have "spliced_url \<noteq> []" by (simp add: spliced_url_def)
  then show ?thesis by (simp add: clean_text_def 1 2 3 4 5 6)
qed

lemma clean_spliced_entity:
  "clean_text ascii_db spliced_entity = u ''&amp;''"
  by (simp add: spliced_entity_def cl_defs)

lemma url_found: "contains_url ascii_db (u ''http://example.com'')"
  by (simp add: contains_url_def re_search_def match_len_def URL_PATTERN_def Str_def Lit_def Plus_def Opt_def
      u_def non_space_def is_space_def)

lemma entity_found: "contains_html_entity ascii_db (u ''&amp;'')"
  by (simp add: contains_html_entity_def re_search_def match_len_def HTML_ENTITIES_def Str_def Lit_def Plus_def
      u_def az_ignorecase_def)

text \<open>
  C4 fails on the code. The passes run once each, in the order URLs, markdown characters,
  HTML entities, emoji, platform noise, white space; a later pass that deletes code
  points can join the two halves of a URL or of an entity that the earlier pass therefore
  did not see. For the title \<open>http:/\<close>, U+2600, \<open>/example.com\<close> the cleaned title is
  \<open>http://example.com\<close>, in which \<^verbatim>\<open>URL_PATTERN\<close> finds a match; for the body \<open>&am\<close>,
  U+2600, \<open>p;\<close> the cleaned body is \<open>&amp;\<close>, in which \<^verbatim>\<open>HTML_ENTITIES\<close> finds a match.
\<close>

theorem cleaning_splices_url_and_entity:
  "cleaned_title (process_post ascii_db
       (reddit_post spliced_url spliced_entity []))
     = u ''http://example.com''
   \<and> contains_url ascii_db (cleaned_title (process_post ascii_db
       (reddit_post spliced_url spliced_entity [])))
   \<and> cleaned_body (process_post ascii_db
       (reddit_post spliced_url spliced_entity []))
     = u ''&amp;''
   \<and> contains_html_entity ascii_db (cleaned_body (process_post ascii_db
       (reddit_post spliced_url spliced_entity [])))"
proof -
  have t: "cleaned_title (process_post ascii_db
       (reddit_post spliced_url spliced_entity []))
     = u ''http://example.com''"
    by (simp add: process_post_def reddit_post_def Let_def case_prod_beta clean_spliced_url)
  have b: "cleaned_body (process_post ascii_db
       (reddit_post spliced_url spliced_entity []))
     = u ''&amp;''"
    by (simp add: process_post_def reddit_post_def Let_def case_prod_beta clean_spliced_entity MAX_BODY_LENGTH_def)
      (simp add: u_def)
  show ?thesis unfolding t b using url_found entity_found by simp
qed


section \<open>Confidence of the lexicon strategy\<close>

lemma clean_amazing: "clean_text ascii_db (u ''Amazing perfect'') = u ''Amazing perfect''"
  by (simp add: cl_defs)

lemma clean_empty: "clean_text R [] = []"
  by (simp add: clean_text_def)

lemma combined_amazing:
  "combined_text (process_post ascii_db (reddit_post (u ''Amazing perfect'') [] []))
     = u ''Amazing perfect Amazing perfect''"
  by (simp add: process_post_def reddit_post_def clean_amazing clean_empty comment_loop_def Let_def
      MAX_BODY_LENGTH_def) (simp add: strip_def u_def is_space_def)

lemma words_amazing:
  "re_findall ascii_db (WORD_PATTERN ascii_db) (db_lower ascii_db (u ''Amazing perfect Amazing perfect''))
     = [u ''amazing'', u ''perfect'', u ''amazing'', u ''perfect'']"
  by (simp add: re_findall_def WORD_PATTERN_def match_len_def Plus_def u_def ascii_db_def ascii_lower_char_def
      is_word_def word_at_def next_char_def)

lemma lookup_amazing: "lexicon_lookup (u ''amazing'') = Some 5" "lexicon_lookup (u ''perfect'') = Some 5"
  by (simp_all add: lexicon_lookup_def SENTIMENT_LEXICON_def u_def)

text \<open>
  C7 fails on the code. Under the lexicon strategy the confidence is the normalized score
  over 5, and the normalized score is the sum of the weights over the square root of the
  number of matched words: for a post titled ``Amazing perfect'' with no body and no
  comments the combined text has four matched words of weight 5, the normalized score is
  10 and the confidence is 2.
\<close>

theorem lexicon_confidence_above_one:
  "sentiment (analyze_post lexicon_analyzer ascii_db
       (process_post ascii_db (reddit_post (u ''Amazing perfect'') [] [])))
     = \<lparr> sr_label = Positive, sr_score = 2, raw_score = 10 \<rparr>"
  by (simp add: analyze_post_def analyze_sentiment_def lexicon_analyzer_def analyze_sentiment_lexicon_def
      combined_amazing words_amazing lexicon_step_def lookup_amazing Let_def)

end
